theory Spec2Isabelle
  imports Complex_Main
begin

section \<open>Common ground: exceptions, collaborator calls and their trace\<close>

text \<open>
  The repository is orchestration code over external collaborators (pymatgen, pyxtal,
  an evolver, an energy calculator). Every collaborator is a parameter of the model.
  A Python float is modelled as a real number: the code only compares floats, tests them
  for zero and scales them by powers of two.

  An exception is a value. A run of a procedure yields either an exception or a result,
  together with the list of collaborator calls and log records it made, in order.
\<close>

datatype exn =
    ValueError string
  | RuntimeError string
  | AssertionError
  | IndexError
  | RecursionError
  | TypeError string
  | OtherError string

type_synonym ('ev, 'a) run = "(exn + 'a) \<times> 'ev list"

definition pure_r :: "'a \<Rightarrow> ('ev, 'a) run" where
  "pure_r x = (Inr x, [])"

definition raise_r :: "exn \<Rightarrow> ('ev, 'a) run" where
  "raise_r e = (Inl e, [])"

text \<open>Sequencing: an exception of the first part ends the run, its trace kept.\<close>

definition bind_r :: "('ev, 'a) run \<Rightarrow> ('a \<Rightarrow> ('ev, 'b) run) \<Rightarrow> ('ev, 'b) run" where
  "bind_r m f =
     (case m of
        (Inl e, t) \<Rightarrow> (Inl e, t)
      | (Inr x, t) \<Rightarrow> (case f x of (r, t') \<Rightarrow> (r, t @ t')))"

text \<open>A call of a collaborator: the call is recorded, its outcome is the collaborator's.\<close>

definition call_r :: "'ev \<Rightarrow> exn + 'a \<Rightarrow> ('ev, 'a) run" where
  "call_r ev outcome = (outcome, [ev])"

text \<open>\<^verbatim>\<open>try: m  except ValueError: h\<close>; any other exception propagates.\<close>

definition except_ValueError :: "('ev, 'a) run \<Rightarrow> ('ev, 'a) run \<Rightarrow> ('ev, 'a) run" where
  "except_ValueError m h =
     (case m of
        (Inl (ValueError msg), t) \<Rightarrow> (case h of (r, t') \<Rightarrow> (r, t @ t'))
      | _ \<Rightarrow> m)"

text \<open>\<^verbatim>\<open>monty.dev.requires(condition, message)\<close>: the decorated function raises a
  RuntimeError when the optional module failed to import (the module is \<^verbatim>\<open>None\<close>).\<close>

definition requires :: "'m option \<Rightarrow> string \<Rightarrow> ('m \<Rightarrow> ('ev, 'a) run) \<Rightarrow> ('ev, 'a) run" where
  "requires optional_module message body =
     (case optional_module of None \<Rightarrow> raise_r (RuntimeError message) | Some m \<Rightarrow> body m)"

text \<open>Decimal rendering of integers, as an f-string does it.\<close>

fun digits_rev :: "nat \<Rightarrow> nat \<Rightarrow> string" where
  "digits_rev 0 n = []"
| "digits_rev (Suc fuel) n =
     (if n < 10 then [char_of (48 + n)]
      else char_of (48 + n mod 10) # digits_rev fuel (n div 10))"

definition str_nat :: "nat \<Rightarrow> string" where
  "str_nat n = rev (digits_rev (Suc n) n)"

definition str_int :: "int \<Rightarrow> string" where
  "str_int i = (if i < 0 then CHR ''-'' # str_nat (nat (- i)) else str_nat (nat i))"

section \<open>Structures\<close>

text \<open>
  A pymatgen \<^verbatim>\<open>Structure\<close>: a lattice, the species and fractional coordinates of its
  sites, and a dictionary of cached scalar properties. \<^verbatim>\<open>len(structure)\<close> is the
  number of sites.
\<close>

type_synonym vec3 = "real \<times> real \<times> real"

record Structure =
  lattice :: "vec3 list"
  species :: "string list"
  frac_coords :: "vec3 list"
  properties :: "(string \<times> real) list"

definition nsites :: "Structure \<Rightarrow> nat" where
  "nsites s = length (frac_coords s)"

section \<open>Energy condition (evolution/conditions/energy.py)\<close>

text \<open>Modelled from the spec: \<^verbatim>\<open>randomcarbon.utils.structure.get_property\<close> is not among
  the sources; it reads a cached property of the structure if present, else \<^verbatim>\<open>None\<close>.\<close>

definition get_property :: "Structure \<Rightarrow> string \<Rightarrow> real option" where
  "get_property s name = map_of (properties s) name"

definition set_property :: "Structure \<Rightarrow> string \<Rightarrow> real \<Rightarrow> Structure" where
  "set_property s name v = s\<lparr>properties := (name, v) # filter (\<lambda>kv. fst kv \<noteq> name) (properties s)\<rparr>"

datatype energy_event = GetEnergy Structure

text \<open>Modelled from the spec: \<^verbatim>\<open>randomcarbon.run.ase.get_energy\<close> is not among the
  sources; given a structure, a calculator and constraints it returns a scalar energy,
  caching it onto the structure when \<^verbatim>\<open>set_in_structure\<close> holds. The calculator
  (with its constraints) is the parameter \<open>calc\<close>; the structure is mutated in place,
  so the model returns it beside the energy.\<close>

definition get_energy ::
  "(Structure \<Rightarrow> exn + real) \<Rightarrow> Structure \<Rightarrow> bool \<Rightarrow> (energy_event, real \<times> Structure) run" where
  "get_energy calc s set_in_structure =
     bind_r (call_r (GetEnergy s) (calc s))
       (\<lambda>e. pure_r (e, if set_in_structure then set_property s ''energy'' e else s))"

text \<open>The class \<^verbatim>\<open>SmallEnergyAtoms\<close>: the criteria dictionary in its iteration order
  and the calculator with its constraints. \<open>repr_float\<close> is Python's rendering of a float
  in an f-string.\<close>

record small_energy_atoms =
  criteria :: "(int \<times> real) list"
  calculator :: "Structure \<Rightarrow> exn + real"
  repr_float :: "real \<Rightarrow> string"

text \<open>Python's truth value of \<^verbatim>\<open>e\<close> in \<^verbatim>\<open>if not e\<close>: \<^verbatim>\<open>None\<close> and \<^verbatim>\<open>0.0\<close> are false.\<close>

definition falsy :: "real option \<Rightarrow> bool" where
  "falsy e = (case e of None \<Rightarrow> True | Some v \<Rightarrow> v = 0)"

text \<open>The loop over \<^verbatim>\<open>self.criteria.items()\<close>, returning at the first entry that matches.\<close>

fun scan_criteria :: "(real \<Rightarrow> string) \<Rightarrow> nat \<Rightarrow> real \<Rightarrow> (int \<times> real) list \<Rightarrow> bool \<times> string" where
  "scan_criteria rf n e [] = (False, ''SmallEnergyAtoms. no condition satisfied'')"
| "scan_criteria rf n e ((n_threshold, e_threshold) # rest) =
     (if int n > n_threshold \<and> e > e_threshold
      then (True, ''SmallEnergyAtoms. nsites: '' @ str_nat n @ '', energy: '' @ rf e)
      else scan_criteria rf n e rest)"

definition satisfied ::
  "small_energy_atoms \<Rightarrow> Structure \<Rightarrow> (energy_event, (bool \<times> string) \<times> Structure) run" where
  "satisfied self s =
     bind_r (case get_property s ''energy'' of
               None \<Rightarrow> get_energy (calculator self) s True
             | Some v \<Rightarrow> if falsy (Some v) then get_energy (calculator self) s True
                        else pure_r (v, s))
       (\<lambda>(e, s'). pure_r (scan_criteria (repr_float self) (nsites s') e (criteria self), s'))"

section \<open>Density aggregator (analysis/generation.py)\<close>

text \<open>
  The collaborators of \<^verbatim>\<open>distribution_density\<close>. The evolver carries random state of its
  own, so \<open>evolve w i current\<close> is the outcome of its call at attempt \<open>i\<close> of the run: an
  exception, or the list of structures returned (\<^verbatim>\<open>None\<close> counts as the empty list, both are
  false for \<^verbatim>\<open>if not new_s\<close>). \<open>write_file\<close> is \<^verbatim>\<open>Chgcar.write_file\<close> of pymatgen,
  \<open>print_stats\<close> the text of the profiler's report, \<open>format_exc\<close> the text
  \<^verbatim>\<open>traceback.format_exc()\<close> gives for the exception being handled, and \<open>percent_format\<close>
  Python's \<^verbatim>\<open>msg % args\<close> for a message that holds conversions.
\<close>

type_synonym grid = "real list list list"

record Chgcar =
  poscar :: Structure
  data :: "(string \<times> grid) list"

record gen_world =
  evolve :: "nat \<Rightarrow> Structure option \<Rightarrow> exn + Structure list"
  write_file :: "Chgcar \<Rightarrow> string option \<Rightarrow> exn + unit"
  print_stats :: string
  format_exc :: "exn \<Rightarrow> string"
  percent_format :: "string \<Rightarrow> string list \<Rightarrow> exn + string"

text \<open>The optional module \<^verbatim>\<open>ProbabilityDensityAnalysis\<close>: from the placeholder structure,
  the trajectory tensor and the grid interval to the probability grid \<^verbatim>\<open>Pr\<close>.\<close>

type_synonym pda_module = "Structure \<Rightarrow> vec3 list list \<Rightarrow> real \<Rightarrow> exn + grid"

text \<open>
  The trace of a run: a call of the evolver; a warning or an info record with the message
  that reaches the log; a record whose message could not be rendered, with the message
  and the arguments of the logging call, which the handler reports on stderr in place of
  the message; the density analysis; the writing of the file.
\<close>

datatype gen_event =
    Evolve nat
  | LogWarning string
  | LogInfo string
  | LoggingError string "string list"
  | DensityAnalysis Structure "vec3 list list" real
  | WriteFile "string option"

text \<open>
  Python's \<^verbatim>\<open>logging\<close>, as far as this code meets it. \<^verbatim>\<open>logger.warning(msg, *args)\<close> makes
  a record, and the handler renders it with \<^verbatim>\<open>LogRecord.getMessage\<close>: the message itself
  when there are no arguments, \<^verbatim>\<open>msg % args\<close> otherwise, which raises the TypeError below
  when the message holds no conversion for the arguments. When rendering raises, the
  handler's \<^verbatim>\<open>handleError\<close> decides: the handlers of the standard library report the
  failure on stderr and return, so that no message reaches the log; a handler that
  overrides it to raise again lets the exception leave the logging call.
\<close>

definition getMessage ::
  "(string \<Rightarrow> string list \<Rightarrow> exn + string) \<Rightarrow> string \<Rightarrow> string list \<Rightarrow> exn + string" where
  "getMessage percent msg args =
     (if args = [] then Inr msg
      else if CHR ''%'' \<in> set msg then percent msg args
      else Inl (TypeError ''not all arguments converted during string formatting''))"

datatype handler_policy = ReportOnStderr | Reraise

definition logger_warning ::
  "handler_policy \<Rightarrow> (string \<Rightarrow> string list \<Rightarrow> exn + string) \<Rightarrow> string \<Rightarrow> string list \<Rightarrow>
     (gen_event, unit) run" where
  "logger_warning policy percent msg args =
     (case getMessage percent msg args of
        Inr text \<Rightarrow> (Inr (), [LogWarning text])
      | Inl err \<Rightarrow>
          (case policy of
             ReportOnStderr \<Rightarrow> (Inr (), [LoggingError msg args])
           | Reraise \<Rightarrow> (Inl err, [])))"

text \<open>\<^verbatim>\<open>len(current)\<close> when a current structure is given; the slice
  \<^verbatim>\<open>s.frac_coords[len(current):]\<close> is empty when \<^verbatim>\<open>s\<close> is shorter.\<close>

definition new_coords :: "Structure option \<Rightarrow> Structure list \<Rightarrow> vec3 list" where
  "new_coords current new_s =
     (case current of
        Some c \<Rightarrow> concat (map (\<lambda>s. drop (nsites c) (frac_coords s)) new_s)
      | None \<Rightarrow> concat (map frac_coords new_s))"

text \<open>One pass of the loop body, lines 60 to 75: the accumulator \<^verbatim>\<open>fcoords\<close> and the
  trace before the attempt, and after it. The bare \<^verbatim>\<open>except\<close> catches every exception of the
  evolver; line 75 then calls \<^verbatim>\<open>logger.warning(f"error {i}: ", traceback.format_exc())\<close>,
  the traceback being an argument of the logging call and not a part of the message. The
  loop is taken under the handlers of the standard library, with which a logging call
  always returns and leaves its trace; what a handler that raises again makes of line 75
  is \<open>logger_warning Reraise\<close>: the exception leaves the \<^verbatim>\<open>except\<close> block and ends the run.
  \<^verbatim>\<open>n_generated\<close> is a natural number: the range of a negative count is empty like that of
  zero.\<close>

definition attempt ::
  "gen_world \<Rightarrow> Structure option \<Rightarrow> nat \<Rightarrow> vec3 list \<times> gen_event list \<Rightarrow> vec3 list \<times> gen_event list" where
  "attempt w current i acc =
     (case acc of (fcoords, tr) \<Rightarrow>
        (case evolve w i current of
           Inl err \<Rightarrow>
             (fcoords,
              tr @ Evolve i # snd (logger_warning ReportOnStderr (percent_format w)
                                     (''error '' @ str_nat i @ '': '') [format_exc w err]))
         | Inr new_s \<Rightarrow>
             if new_s = []
             then (fcoords,
                   tr @ Evolve i # snd (logger_warning ReportOnStderr (percent_format w)
                       (''at iteration '' @ str_nat i @ '' no structure was generated'') []))
             else (fcoords @ new_coords current new_s, tr @ [Evolve i])))"

definition generation_loop ::
  "gen_world \<Rightarrow> Structure option \<Rightarrow> nat \<Rightarrow> vec3 list \<times> gen_event list" where
  "generation_loop w current n_generated = fold (attempt w current) [0..<n_generated] ([], [])"

text \<open>\<^verbatim>\<open>np.reshape(fcoords, (len(fcoords), 1, 3))\<close>: one frame per collected point.\<close>

definition reshape_frames :: "vec3 list \<Rightarrow> vec3 list list" where
  "reshape_frames fcoords = map (\<lambda>c. [c]) fcoords"

text \<open>\<^verbatim>\<open>fcoords[0]\<close> on the reshaped array: an IndexError when there is no frame.\<close>

definition first_frame :: "vec3 list list \<Rightarrow> (gen_event, vec3 list) run" where
  "first_frame frames = (case frames of [] \<Rightarrow> raise_r IndexError | f # _ \<Rightarrow> pure_r f)"

definition distribution_density ::
  "pda_module option \<Rightarrow> gen_world \<Rightarrow> Structure \<Rightarrow> Structure option \<Rightarrow> nat \<Rightarrow> real \<Rightarrow>
     string option \<Rightarrow> bool \<Rightarrow> (gen_event, Chgcar) run" where
  "distribution_density ProbabilityDensityAnalysis w template current n_generated interval
       filepath profile =
     requires ProbabilityDensityAnalysis
       ''the pymatgen diffusion plugin is required: https://github.com/materialsvirtuallab/pymatgen-diffusion''
       (\<lambda>pda_new.
          bind_r (case generation_loop w current n_generated of
                    (fcoords, tr) \<Rightarrow>
                      (Inr fcoords, tr @ (if profile then [LogInfo (print_stats w)] else [])))
            (\<lambda>fcoords.
               let frames = reshape_frames fcoords in
               bind_r (first_frame frames)
                 (\<lambda>coords0.
                    let tmp_s = \<lparr>lattice = lattice template, species = [''C''],
                                 frac_coords = coords0, properties = []\<rparr> in
                    bind_r (call_r (DensityAnalysis tmp_s frames interval)
                              (pda_new tmp_s frames interval))
                      (\<lambda>Pr.
                         let s_init = (case current of Some c \<Rightarrow> c | None \<Rightarrow> template);
                             chgcar = \<lparr>poscar = s_init, data = [(''total'', Pr)]\<rparr> in
                         bind_r (call_r (WriteFile filepath) (write_file w chgcar filepath))
                           (\<lambda>u. pure_r chgcar)))))"

section \<open>Subgroup derivation and validation (utils/symmetry.py)\<close>

type_synonym SymmOp = "vec3 list \<times> vec3"

text \<open>A pyxtal \<^verbatim>\<open>Group\<close> with the \<^verbatim>\<open>"subgroup"\<close> entries of its tables of maximal
  subgroups, and a pyxtal crystal with its group and its pymatgen structure.\<close>

record Group =
  group_number :: int
  max_t_subgroup :: "int list"
  max_k_subgroup :: "int list"

record pyxtal_crystal =
  xtal_group :: Group
  to_pymatgen :: Structure

record pyxtal_module =
  from_seed :: "Structure \<Rightarrow> real \<Rightarrow> real \<Rightarrow> exn + pyxtal_crystal"
  subgroup :: "pyxtal_crystal \<Rightarrow> int option \<Rightarrow> int list option \<Rightarrow> real \<Rightarrow> string \<Rightarrow> exn + pyxtal_crystal list"
  symmetry_Group :: "int \<Rightarrow> exn + Group"

text \<open>pymatgen: a \<^verbatim>\<open>SpacegroupAnalyzer\<close> is built from a structure and a tolerance and
  answers from them; the \<^verbatim>\<open>StructureMatcher\<close> is built from its three tolerances.\<close>

record spga =
  spga_structure :: Structure
  spga_symprec :: real

record pymatgen =
  analyzer_init :: "Structure \<Rightarrow> real \<Rightarrow> exn + unit"
  space_group_number :: "spga \<Rightarrow> exn + int option"
  primitive_standard_structure :: "spga \<Rightarrow> exn + Structure"
  symmetry_operations :: "spga \<Rightarrow> exn + SymmOp list"
  matcher_fit :: "real \<Rightarrow> real \<Rightarrow> real \<Rightarrow> Structure \<Rightarrow> Structure \<Rightarrow> exn + bool"

datatype sym_event =
    FromSeed Structure real real
  | Subgroup "int option" "int list option" real string
  | NewAnalyzer Structure real
  | GetSpaceGroupNumber spga
  | GetPrimitive spga
  | GetSymmetryOperations spga
  | Fit Structure Structure
  | AddAtom nat
  | NewGroup int

definition SpacegroupAnalyzer :: "pymatgen \<Rightarrow> Structure \<Rightarrow> real \<Rightarrow> (sym_event, spga) run" where
  "SpacegroupAnalyzer pmg s symprec =
     bind_r (call_r (NewAnalyzer s symprec) (analyzer_init pmg s symprec))
       (\<lambda>u. pure_r \<lparr>spga_structure = s, spga_symprec = symprec\<rparr>)"

definition get_space_group_number :: "pymatgen \<Rightarrow> spga \<Rightarrow> (sym_event, int option) run" where
  "get_space_group_number pmg a = call_r (GetSpaceGroupNumber a) (space_group_number pmg a)"

definition get_primitive_standard_structure :: "pymatgen \<Rightarrow> spga \<Rightarrow> (sym_event, Structure) run" where
  "get_primitive_standard_structure pmg a = call_r (GetPrimitive a) (primitive_standard_structure pmg a)"

definition get_symmetry_operations :: "pymatgen \<Rightarrow> spga \<Rightarrow> (sym_event, SymmOp list) run" where
  "get_symmetry_operations pmg a = call_r (GetSymmetryOperations a) (symmetry_operations pmg a)"

subsection \<open>get_subgroup_structure\<close>

text \<open>The tolerance of pass \<open>i\<close> of the primitive-cell loop, line 70.\<close>

definition symprec_sub :: "real \<Rightarrow> nat \<Rightarrow> real" where
  "symprec_sub eps i = eps * 2 ^ i / 16"

datatype loop_ctl = Break Structure spga | Continue Structure

text \<open>
  The body of the \<^verbatim>\<open>try\<close>, lines 73 to 78. A ValueError anywhere in it is passed over and
  the loop goes on; \<^verbatim>\<open>sub_struct\<close> keeps the primitive structure when the error comes after
  line 75 has assigned it, which the inner handler records.
\<close>

definition try_primitive :: "pymatgen \<Rightarrow> int \<Rightarrow> real \<Rightarrow> Structure \<Rightarrow> spga \<Rightarrow> (sym_event, loop_ctl) run" where
  "try_primitive pmg spgn tol sub_struct a =
     except_ValueError
       (bind_r (get_space_group_number pmg a)
          (\<lambda>tmp_spgn.
             if tmp_spgn \<noteq> None \<and> tmp_spgn = Some spgn
             then bind_r (get_primitive_standard_structure pmg a)
                    (\<lambda>prim.
                       except_ValueError
                         (bind_r (SpacegroupAnalyzer pmg prim tol)
                            (\<lambda>a'. bind_r (get_space_group_number pmg a')
                               (\<lambda>n. if n = Some spgn then pure_r (Break prim a')
                                    else raise_r AssertionError)))
                         (pure_r (Continue prim)))
             else pure_r (Continue sub_struct)))
       (pure_r (Continue sub_struct))"

text \<open>The \<^verbatim>\<open>for i in range(1, 9)\<close> loop with its \<^verbatim>\<open>else\<close> branch, lines 69 to 83.\<close>

fun primitive_scan :: "pymatgen \<Rightarrow> real \<Rightarrow> int \<Rightarrow> Structure \<Rightarrow> nat list \<Rightarrow> (sym_event, Structure \<times> spga) run" where
  "primitive_scan pmg eps spgn sub_struct [] =
     raise_r (RuntimeError ''Could not find a value of symprec that matches the original space group'')"
| "primitive_scan pmg eps spgn sub_struct (i # rest) =
     bind_r (SpacegroupAnalyzer pmg sub_struct (symprec_sub eps i))
       (\<lambda>a. bind_r (try_primitive pmg spgn (symprec_sub eps i) sub_struct a)
          (\<lambda>ctl. case ctl of
                    Break prim a' \<Rightarrow> pure_r (prim, a')
                  | Continue s \<Rightarrow> primitive_scan pmg eps spgn s rest))"

text \<open>\<^verbatim>\<open>c.subgroup(...)[0]\<close>.\<close>

definition first_subgroup :: "pyxtal_crystal list \<Rightarrow> (sym_event, pyxtal_crystal) run" where
  "first_subgroup cs = (case cs of [] \<Rightarrow> raise_r IndexError | c # _ \<Rightarrow> pure_r c)"

text \<open>Lines 54 to 66: the crystal is read, its group checked, the subgroup derived.\<close>

definition derive_subgroup ::
  "pyxtal_module \<Rightarrow> Structure \<Rightarrow> int option \<Rightarrow> int option \<Rightarrow> real \<Rightarrow> string \<Rightarrow> real \<Rightarrow> real \<Rightarrow>
     int option \<Rightarrow> (sym_event, Structure \<times> int) run" where
  "derive_subgroup px struct spgn idx eps group_type symprec angle_tolerance expected_initial_spgn =
     (let idx' = map_option (\<lambda>i. [i]) idx in
      bind_r (call_r (FromSeed struct symprec angle_tolerance)
                (from_seed px struct symprec angle_tolerance))
        (\<lambda>c. if expected_initial_spgn \<noteq> None
                 \<and> Some (group_number (xtal_group c)) \<noteq> expected_initial_spgn
              then raise_r (RuntimeError (''pyxtal identified the space group ''
                      @ str_int (group_number (xtal_group c))
                      @ ''. Try to tune the value of symprec.''))
              else bind_r (call_r (Subgroup spgn idx' eps group_type)
                             (subgroup px c spgn idx' eps group_type))
                     (\<lambda>subs. bind_r (first_subgroup subs)
                        (\<lambda>c_sub. pure_r (to_pymatgen c_sub,
                             (case spgn of None \<Rightarrow> group_number (xtal_group c_sub)
                                         | Some n \<Rightarrow> n))))))"

definition get_subgroup_structure ::
  "pyxtal_module option \<Rightarrow> pymatgen \<Rightarrow> Structure \<Rightarrow> int option \<Rightarrow> int option \<Rightarrow> real \<Rightarrow> string \<Rightarrow>
     bool \<Rightarrow> real \<Rightarrow> real \<Rightarrow> int option \<Rightarrow> (sym_event, Structure \<times> SymmOp list) run" where
  "get_subgroup_structure pyxtal pmg struct spgn idx eps group_type primitive symprec
       angle_tolerance expected_initial_spgn =
     requires pyxtal ''pyxtal should be installed''
       (\<lambda>px.
          if primitive \<and> eps = 0
          then raise_r (ValueError ''to determine the primitive structure eps should be greater than 0'')
          else bind_r (derive_subgroup px struct spgn idx eps group_type symprec angle_tolerance
                         expected_initial_spgn)
                 (\<lambda>(sub_struct, spgn').
                    bind_r (if primitive
                            then primitive_scan pmg eps spgn' sub_struct [1..<9]
                            else bind_r (SpacegroupAnalyzer pmg sub_struct symprec)
                                   (\<lambda>a. pure_r (sub_struct, a)))
                      (\<lambda>(sub_struct', a).
                         bind_r (get_symmetry_operations pmg a)
                           (\<lambda>sym_ops. pure_r (sub_struct', sym_ops)))))"

subsection \<open>validate_subgroup\<close>

text \<open>Modelled from the spec: \<^verbatim>\<open>randomcarbon.utils.structure.add_new_symmetrized_atom\<close> is
  not among the sources; it adds one atom to the template by applying all operations to a
  random seed position. It is the parameter \<open>add_atom\<close>: the outcome of its call in pass
  \<open>i\<close> of the loop.\<close>

type_synonym atom_adder = "nat \<Rightarrow> Structure \<Rightarrow> SymmOp list \<Rightarrow> exn + Structure"

definition add_new_symmetrized_atom ::
  "atom_adder \<Rightarrow> nat \<Rightarrow> Structure \<Rightarrow> SymmOp list \<Rightarrow> (sym_event, Structure) run" where
  "add_new_symmetrized_atom add_atom i template symm_ops =
     call_r (AddAtom i) (add_atom i template symm_ops)"

text \<open>The \<^verbatim>\<open>for i in range(10)\<close> loop with its \<^verbatim>\<open>else\<close> branch, lines 119 to 127.\<close>

fun sample_loop ::
  "pymatgen \<Rightarrow> atom_adder \<Rightarrow> Structure \<Rightarrow> SymmOp list \<Rightarrow> int \<Rightarrow> real \<Rightarrow> nat list \<Rightarrow>
     (sym_event, string option) run" where
  "sample_loop pmg add_atom structure_sub symm_ops sub_spgn symprec [] =
     pure_r (Some (''generated structures do not belong to the spacegroup '' @ str_int sub_spgn))"
| "sample_loop pmg add_atom structure_sub symm_ops sub_spgn symprec (i # rest) =
     bind_r (add_new_symmetrized_atom add_atom i structure_sub symm_ops)
       (\<lambda>s. bind_r (SpacegroupAnalyzer pmg s symprec)
          (\<lambda>a. bind_r (get_space_group_number pmg a)
             (\<lambda>n. if n = Some sub_spgn then pure_r None
                  else sample_loop pmg add_atom structure_sub symm_ops sub_spgn symprec rest)))"

definition validate_subgroup ::
  "pymatgen \<Rightarrow> atom_adder \<Rightarrow> Structure \<Rightarrow> Structure \<Rightarrow> SymmOp list \<Rightarrow> int \<Rightarrow> real \<Rightarrow> real \<Rightarrow> real \<Rightarrow>
     real \<Rightarrow> (sym_event, string option) run" where
  "validate_subgroup pmg add_atom structure_orig structure_sub symm_ops sub_spgn ltol stol
       angle_tol symprec =
     bind_r (call_r (Fit structure_orig structure_sub)
               (matcher_fit pmg ltol stol angle_tol structure_orig structure_sub))
       (\<lambda>fits. if \<not> fits then pure_r (Some ''structures do not fit'')
              else sample_loop pmg add_atom structure_sub symm_ops sub_spgn symprec [0..<10])"

subsection \<open>get_subgroups\<close>

text \<open>The value returned: the flat list, or the dictionary from each subgroup to its own
  dictionary, in insertion order.\<close>

datatype subgroups = SubList "int list" | SubDict "(int \<times> subgroups) list"

text \<open>The loop of lines 155 to 159 over the listed subgroups; \<open>expand\<close> is the recursive
  call.\<close>

fun expand_loop ::
  "(int \<Rightarrow> (sym_event, subgroups) run) \<Rightarrow> int list \<Rightarrow> (int \<times> subgroups) list \<Rightarrow>
     (sym_event, (int \<times> subgroups) list) run" where
  "expand_loop expand [] subgroups_dict = pure_r subgroups_dict"
| "expand_loop expand (sg # rest) subgroups_dict =
     (if sg \<notin> fst ` set subgroups_dict
      then bind_r (expand sg) (\<lambda>sub. expand_loop expand rest (subgroups_dict @ [(sg, sub)]))
      else expand_loop expand rest subgroups_dict)"

definition apostrophe :: char where
  "apostrophe = char_of (39 :: nat)"

text \<open>
  The first argument is the number of nested calls the interpreter still allows: Python
  raises a RecursionError beyond its recursion limit, and the function has no other bound
  on its depth.
\<close>

fun get_subgroups :: "nat \<Rightarrow> pyxtal_module option \<Rightarrow> int \<Rightarrow> bool \<Rightarrow> string \<Rightarrow> (sym_event, subgroups) run" where
  "get_subgroups 0 pyxtal spgn recursive group_type = raise_r RecursionError"
| "get_subgroups (Suc depth) pyxtal spgn recursive group_type =
     requires pyxtal ''pyxtal should be installed''
       (\<lambda>px.
          bind_r (call_r (NewGroup spgn) (symmetry_Group px spgn))
            (\<lambda>group.
               bind_r (if group_type = ''t'' then pure_r (max_t_subgroup group)
                       else if group_type = ''k'' then pure_r (max_k_subgroup group)
                       else raise_r (ValueError (''group_type should be either '' @ [apostrophe]
                              @ ''t'' @ [apostrophe] @ '' or '' @ [apostrophe] @ ''k''
                              @ [apostrophe])))
                 (\<lambda>subgroups.
                    if recursive
                    then bind_r (expand_loop (\<lambda>sg. get_subgroups depth pyxtal sg True group_type)
                                   subgroups [])
                           (\<lambda>d. pure_r (SubDict d))
                    else pure_r (SubList subgroups))))"

section \<open>Notions the properties are stated with\<close>

text \<open>
  The words of the specification for the density aggregator: an attempt has failed when
  the evolver raised or returned no structure; the known prefix is the length of the
  current structure if one is given, else nothing; the coordinates an attempt contributes
  are those of the atoms beyond the known prefix in each structure returned. In a trace,
  the calls of the evolver, the records that reached the log, and the calls that produce
  the artifact.
\<close>

definition failed :: "gen_world \<Rightarrow> Structure option \<Rightarrow> nat \<Rightarrow> bool" where
  "failed w current i = (case evolve w i current of Inl err \<Rightarrow> True | Inr new_s \<Rightarrow> new_s = [])"

definition known_prefix :: "Structure option \<Rightarrow> nat" where
  "known_prefix current = (case current of None \<Rightarrow> 0 | Some c \<Rightarrow> nsites c)"

definition appended :: "gen_world \<Rightarrow> Structure option \<Rightarrow> nat \<Rightarrow> vec3 list" where
  "appended w current i =
     (case evolve w i current of
        Inl err \<Rightarrow> []
      | Inr new_s \<Rightarrow> concat (map (\<lambda>s. drop (known_prefix current) (frac_coords s)) new_s))"

definition is_attempt :: "gen_event \<Rightarrow> bool" where
  "is_attempt ev = (case ev of Evolve i \<Rightarrow> True | _ \<Rightarrow> False)"

definition is_logged :: "gen_event \<Rightarrow> bool" where
  "is_logged ev = (case ev of LogWarning text \<Rightarrow> True | LogInfo text \<Rightarrow> True | _ \<Rightarrow> False)"

definition is_output :: "gen_event \<Rightarrow> bool" where
  "is_output ev = (case ev of DensityAnalysis s f d \<Rightarrow> True | WriteFile p \<Rightarrow> True | _ \<Rightarrow> False)"

text \<open>
  For the subgroup deriver: the tolerances with which analyzers were built during a run,
  in order; and a pass of the primitive-cell loop that yields no match, the analyzer
  being built and then either failing with a ValueError or reporting something other
  than the target number; and a pass that succeeds: the target number is detected, the
  primitive structure obtained and the target number detected again in it.
\<close>

definition tolerances_tried :: "sym_event list \<Rightarrow> real list" where
  "tolerances_tried tr = concat (map (\<lambda>ev. case ev of NewAnalyzer s tol \<Rightarrow> [tol] | _ \<Rightarrow> []) tr)"

definition no_match :: "pymatgen \<Rightarrow> Structure \<Rightarrow> real \<Rightarrow> int \<Rightarrow> bool" where
  "no_match pmg s tol spgn =
     (analyzer_init pmg s tol = Inr ()
      \<and> (case space_group_number pmg \<lparr>spga_structure = s, spga_symprec = tol\<rparr> of
           Inl (ValueError msg) \<Rightarrow> True
         | Inl other \<Rightarrow> False
         | Inr n \<Rightarrow> n \<noteq> Some spgn))"

definition full_match :: "pymatgen \<Rightarrow> Structure \<Rightarrow> real \<Rightarrow> int \<Rightarrow> Structure \<Rightarrow> bool" where
  "full_match pmg s tol spgn prim =
     (analyzer_init pmg s tol = Inr ()
      \<and> space_group_number pmg \<lparr>spga_structure = s, spga_symprec = tol\<rparr> = Inr (Some spgn)
      \<and> primitive_standard_structure pmg \<lparr>spga_structure = s, spga_symprec = tol\<rparr> = Inr prim
      \<and> analyzer_init pmg prim tol = Inr ()
      \<and> space_group_number pmg \<lparr>spga_structure = prim, spga_symprec = tol\<rparr> = Inr (Some spgn))"

text \<open>
  For the validator: what the analyzer detects in sample \<open>i\<close> when the three collaborators
  return; a sample that matches the target; a sample that is analysed and does not; and
  the trace records of the samples drawn.
\<close>

definition sample_detect ::
  "pymatgen \<Rightarrow> atom_adder \<Rightarrow> Structure \<Rightarrow> SymmOp list \<Rightarrow> real \<Rightarrow> nat \<Rightarrow> int option option" where
  "sample_detect pmg add_atom structure_sub symm_ops symprec i =
     (case add_atom i structure_sub symm_ops of
        Inl err \<Rightarrow> None
      | Inr s \<Rightarrow>
          (case analyzer_init pmg s symprec of
             Inl err \<Rightarrow> None
           | Inr u \<Rightarrow>
               (case space_group_number pmg \<lparr>spga_structure = s, spga_symprec = symprec\<rparr> of
                  Inl err \<Rightarrow> None
                | Inr n \<Rightarrow> Some n)))"

definition sample_matches ::
  "pymatgen \<Rightarrow> atom_adder \<Rightarrow> Structure \<Rightarrow> SymmOp list \<Rightarrow> real \<Rightarrow> int \<Rightarrow> nat \<Rightarrow> bool" where
  "sample_matches pmg add_atom structure_sub symm_ops symprec sub_spgn i =
     (sample_detect pmg add_atom structure_sub symm_ops symprec i = Some (Some sub_spgn))"

definition sample_misses ::
  "pymatgen \<Rightarrow> atom_adder \<Rightarrow> Structure \<Rightarrow> SymmOp list \<Rightarrow> real \<Rightarrow> int \<Rightarrow> nat \<Rightarrow> bool" where
  "sample_misses pmg add_atom structure_sub symm_ops symprec sub_spgn i =
     (case sample_detect pmg add_atom structure_sub symm_ops symprec i of
        None \<Rightarrow> False
      | Some n \<Rightarrow> n \<noteq> Some sub_spgn)"

definition is_sample :: "sym_event \<Rightarrow> bool" where
  "is_sample ev = (case ev of AddAtom i \<Rightarrow> True | _ \<Rightarrow> False)"

text \<open>
  For the subgroup enumerator: the unique elements of a list in order of first occurrence,
  beyond those already seen; the flat list the table holds for a group; and the error for a
  relation type outside \<open>{t, k}\<close>.
\<close>

fun new_keys :: "int list \<Rightarrow> int list \<Rightarrow> int list" where
  "new_keys seen [] = []"
| "new_keys seen (sg # rest) =
     (if sg \<in> set seen then new_keys seen rest else sg # new_keys (seen @ [sg]) rest)"

definition listed :: "pyxtal_module \<Rightarrow> string \<Rightarrow> int \<Rightarrow> int list" where
  "listed px group_type g =
     (case symmetry_Group px g of
        Inl err \<Rightarrow> []
      | Inr G \<Rightarrow> if group_type = ''t'' then max_t_subgroup G
               else if group_type = ''k'' then max_k_subgroup G else [])"

definition bad_group_type :: exn where
  "bad_group_type = ValueError (''group_type should be either '' @ [apostrophe] @ ''t''
      @ [apostrophe] @ '' or '' @ [apostrophe] @ ''k'' @ [apostrophe])"

section \<open>Concrete inputs\<close>

text \<open>A cell of \<open>n\<close> carbon atoms with an optional cached energy, and the condition of the
  class docstring with a calculator that answers \<open>-3\<close>.\<close>

definition carbon_cell :: "nat \<Rightarrow> real option \<Rightarrow> Structure" where
  "carbon_cell n e = \<lparr>lattice = [(1,0,0),(0,1,0),(0,0,1)], species = replicate n ''C'',
     frac_coords = replicate n (0,0,0), properties = (case e of None \<Rightarrow> [] | Some v \<Rightarrow> [(''energy'', v)])\<rparr>"

definition example_condition :: small_energy_atoms where
  "example_condition = \<lparr>criteria = [(100, -1.5), (200, -2)], calculator = (\<lambda>s. Inr (-3)), repr_float = (\<lambda>r. ''<float>'')\<rparr>"

text \<open>An evolver that raises at attempt 1, returns nothing at attempt 3 and otherwise
  returns one structure with one atom more than the known prefix; a writer that rejects a
  missing path the way \<^verbatim>\<open>open\<close> does; a density analysis that returns an empty grid; an
  evolver that never produces a structure. The traceback text is abridged; no message of
  this code holds a conversion, so \<open>percent_format\<close> is never asked.\<close>

definition example_world :: gen_world where
  "example_world =
     \<lparr>evolve = (\<lambda>i current.
         if i = 1 then Inl (OtherError ''no position found'')
         else if i = 3 then Inr []
         else Inr [carbon_cell (Suc (known_prefix current)) None]),
      write_file = (\<lambda>chgcar path.
         case path of None \<Rightarrow> Inl (TypeError ''expected str, bytes or os.PathLike object, not NoneType'')
                    | Some p \<Rightarrow> Inr ()),
      print_stats = [],
      format_exc = (\<lambda>err. ''Traceback (most recent call last): ...''),
      percent_format = (\<lambda>msg args. Inr msg)\<rparr>"

definition example_pda :: pda_module where
  "example_pda s frames interval = Inr []"

definition barren_world :: gen_world where
  "barren_world =
     \<lparr>evolve = (\<lambda>i current. if even i then Inl (OtherError ''no position found'') else Inr []),
      write_file = (\<lambda>chgcar path. Inr ()),
      print_stats = [],
      format_exc = (\<lambda>err. ''Traceback (most recent call last): ...''),
      percent_format = (\<lambda>msg args. Inr msg)\<rparr>"

text \<open>
  A pyxtal with a small table: P222 (16) lists P2 (3) three times among its maximal
  t-subgroups, P2 lists P1 (1), P1 lists none; among the maximal k-subgroups every group
  lists itself, its isomorphic subgroup on an enlarged cell. Every structure is read as
  group 16 and its subgroup derived as asked.
\<close>

definition example_group :: "int \<Rightarrow> Group" where
  "example_group n =
     \<lparr>group_number = n,
      max_t_subgroup = (if n = 16 then [3, 3, 3] else if n = 3 then [1] else []),
      max_k_subgroup = [n]\<rparr>"

definition example_pyxtal :: pyxtal_module where
  "example_pyxtal =
     \<lparr>from_seed = (\<lambda>s tol a_tol. Inr \<lparr>xtal_group = example_group 16, to_pymatgen = s\<rparr>),
      subgroup = (\<lambda>c H idx eps group_type.
         Inr [\<lparr>xtal_group = example_group (case H of None \<Rightarrow> 3 | Some h \<Rightarrow> h),
               to_pymatgen = to_pymatgen c\<rparr>]),
      symmetry_Group = (\<lambda>n. Inr (example_group n))\<rparr>"

text \<open>A pymatgen whose analyzer finds group 1 in every structure at every tolerance.\<close>

definition blind_pymatgen :: pymatgen where
  "blind_pymatgen =
     \<lparr>analyzer_init = (\<lambda>s tol. Inr ()),
      space_group_number = (\<lambda>a. Inr (Some 1)),
      primitive_standard_structure = (\<lambda>a. Inr (spga_structure a)),
      symmetry_operations = (\<lambda>a. Inr []),
      matcher_fit = (\<lambda>ltol stol angle_tol s1 s2. Inr (nsites s1 = nsites s2))\<rparr>"

text \<open>A pymatgen whose analyzer finds group 3 from tolerance 1 on and group 1 below.\<close>

definition coarse_pymatgen :: pymatgen where
  "coarse_pymatgen =
     \<lparr>analyzer_init = (\<lambda>s tol. Inr ()),
      space_group_number = (\<lambda>a. Inr (Some (if 1 \<le> spga_symprec a then 3 else 1))),
      primitive_standard_structure = (\<lambda>a. Inr (spga_structure a)),
      symmetry_operations = (\<lambda>a. Inr []),
      matcher_fit = (\<lambda>ltol stol angle_tol s1 s2. Inr (nsites s1 = nsites s2))\<rparr>"

text \<open>An atom adder that adds one atom in its first three draws and three atoms from then
  on, with an analyzer that reports group 3 from five atoms on and group 1 below.\<close>

definition example_adder :: atom_adder where
  "example_adder i template symm_ops = Inr (carbon_cell (nsites template + (if i < 3 then 1 else 3)) None)"

definition counting_pymatgen :: pymatgen where
  "counting_pymatgen =
     \<lparr>analyzer_init = (\<lambda>s tol. Inr ()),
      space_group_number = (\<lambda>a. Inr (Some (if 5 \<le> nsites (spga_structure a) then 3 else 1))),
      primitive_standard_structure = (\<lambda>a. Inr (spga_structure a)),
      symmetry_operations = (\<lambda>a. Inr []),
      matcher_fit = (\<lambda>ltol stol angle_tol s1 s2. Inr (nsites s1 = nsites s2))\<rparr>"

text \<open>The depth of a group in the example table of t-subgroups.\<close>

definition example_rank :: "int \<Rightarrow> nat" where
  "example_rank g = (if g = 16 then 2 else if g = 3 then 1 else 0)"

section \<open>Sequencing lemmas\<close>

lemma bind_r_Inl [simp]: "bind_r (Inl e, t) f = (Inl e, t)"
  by (simp add: bind_r_def)

lemma bind_r_Inr [simp]: "bind_r (Inr x, t) f = (fst (f x), t @ snd (f x))"
  by (simp add: bind_r_def split: prod.splits)

lemma bind_r_pure [simp]: "bind_r (pure_r x) f = f x"
  by (simp add: bind_r_def pure_r_def split: prod.splits)

lemma bind_r_raise [simp]: "bind_r (raise_r e) f = raise_r e"
  by (simp add: bind_r_def raise_r_def)

lemma bind_r_call_Inr [simp]: "bind_r (call_r ev (Inr x)) f = (fst (f x), ev # snd (f x))"
  by (simp add: call_r_def bind_r_Inr)

lemma bind_r_call_Inl [simp]: "bind_r (call_r ev (Inl e)) f = (Inl e, [ev])"
  by (simp add: call_r_def bind_r_Inl)

section \<open>Properties of the energy condition\<close>

lemma scan_criteria_fst:
  "fst (scan_criteria rf n e cs) \<longleftrightarrow> (\<exists>(n_threshold, e_threshold) \<in> set cs. n_threshold < int n \<and> e_threshold < e)"
  by (induction cs) auto

lemma scan_criteria_snd: "snd (scan_criteria rf n e cs) \<noteq> []"
  by (induction cs) (auto split: if_splits)

lemma get_property_set_property: "get_property (set_property s name v) name = Some v"
  by (simp add: get_property_def set_property_def)

lemma nsites_set_property: "nsites (set_property s name v) = nsites s"
  by (simp add: nsites_def set_property_def)

lemma satisfied_cached:
  "get_property s ''energy'' = Some v \<Longrightarrow> v \<noteq> 0 \<Longrightarrow>
   satisfied self s = (Inr (scan_criteria (repr_float self) (nsites s) v (criteria self), s), [])"
  by (simp add: satisfied_def falsy_def bind_r_pure) (simp add: pure_r_def)

lemma satisfied_computed:
  "falsy (get_property s ''energy'') \<Longrightarrow> calculator self s = Inr v \<Longrightarrow>
   satisfied self s = (Inr (scan_criteria (repr_float self) (nsites s) v (criteria self),
                         set_property s ''energy'' v), [GetEnergy s])"
  by (auto simp add: satisfied_def falsy_def get_energy_def bind_r_call_Inr bind_r_Inr bind_r_pure pure_r_def nsites_set_property split: option.splits)

lemma satisfied_failed:
  "falsy (get_property s ''energy'') \<Longrightarrow> calculator self s = Inl err \<Longrightarrow>
   satisfied self s = (Inl err, [GetEnergy s])"
  by (auto simp add: satisfied_def falsy_def get_energy_def bind_r_call_Inl bind_r_Inl split: option.splits)


lemma nsites_carbon_cell [simp]: "nsites (carbon_cell n e) = n"
  by (simp add: nsites_def carbon_cell_def)

lemma get_property_carbon_cell [simp]: "get_property (carbon_cell n e) ''energy'' = e"
  by (simp add: get_property_def carbon_cell_def split: option.splits)

text \<open>
  Claim C3 (a structure that carries a cached energy is never recomputed) fails on the code
  for a cached energy of exactly zero: \<^verbatim>\<open>if not e\<close> takes \<^verbatim>\<open>0.0\<close> for a missing value.
  On a one-atom cell whose cached energy is \<open>0\<close> the calculator is called and its answer
  \<open>-3\<close> replaces the cached value.
\<close>

theorem satisfied_recomputes_zero_energy:
  "satisfied example_condition (carbon_cell 1 (Some 0)) =
     (Inr ((False, ''SmallEnergyAtoms. no condition satisfied''), carbon_cell 1 (Some (-3))),
      [GetEnergy (carbon_cell 1 (Some 0))])"
proof -
  have "falsy (get_property (carbon_cell 1 (Some 0)) ''energy'')"
    by (simp add: falsy_def)
  moreover have "calculator example_condition (carbon_cell 1 (Some 0)) = Inr (-3)"
    by (simp add: example_condition_def)
  ultimately have "satisfied example_condition (carbon_cell 1 (Some 0)) =
      (Inr (scan_criteria (repr_float example_condition) (nsites (carbon_cell 1 (Some 0))) (-3)
              (criteria example_condition),
            set_property (carbon_cell 1 (Some 0)) ''energy'' (-3)), [GetEnergy (carbon_cell 1 (Some 0))])"
    by (rule satisfied_computed)
  moreover have "set_property (carbon_cell 1 (Some 0)) ''energy'' (-3) = carbon_cell 1 (Some (-3))"
    by (simp add: set_property_def carbon_cell_def)
  moreover have "scan_criteria (repr_float example_condition) 1 (-3) (criteria example_condition)
      = (False, ''SmallEnergyAtoms. no condition satisfied'')"
    by (simp add: example_condition_def)
  ultimately show ?thesis by simp
qed

lemma satisfied_Inr_cases:
  assumes "satisfied self s = (Inr ((b, reason), s'), tr)"
  shows "\<exists>e. get_property s' ''energy'' = Some e \<and> nsites s' = nsites s
           \<and> (b, reason) = scan_criteria (repr_float self) (nsites s) e (criteria self)"
proof (cases "falsy (get_property s ''energy'')")
  case True
  show ?thesis
  proof (cases "calculator self s")
    case (Inl err)
    with True assms show ?thesis by (simp add: satisfied_failed)
  next
    case (Inr v)
    with True assms show ?thesis
      by (auto simp add: satisfied_computed get_property_set_property nsites_set_property)
  qed
next
  case False
  then obtain v where "get_property s ''energy'' = Some v" "v \<noteq> 0"
    by (auto simp add: falsy_def split: option.splits)
  with assms show ?thesis by (auto simp add: satisfied_cached)
qed

text \<open>
  What the code does compute: whenever \<^verbatim>\<open>satisfied\<close> returns, the structure then carries
  the energy \<open>e\<close> that was used (the cached one if it is not zero, else the calculator's),
  the boolean returned is true exactly when some entry of the criteria has its atom count
  strictly below the number of sites and its energy strictly below \<open>e\<close>, and the reason
  returned is a non-empty string. It does return whenever the structure carries a
  non-zero cached energy or the calculator returns one. The three examples of the class
  docstring hold.
\<close>

lemma satisfied_on_energy_used:
  "(satisfied self s = (Inr ((b, reason), s'), tr) \<longrightarrow>
      (\<exists>e. get_property s' ''energy'' = Some e \<and> nsites s' = nsites s \<and> reason \<noteq> [] \<and>
           (b \<longleftrightarrow> (\<exists>(n_threshold, e_threshold) \<in> set (criteria self).
                       n_threshold < int (nsites s) \<and> e_threshold < e))))
   \<and> (criteria self = [(100, -1.5), (200, -2.0)] \<longrightarrow>
        (nsites s = 140 \<and> get_property s ''energy'' = Some (-1.3) \<longrightarrow>
           (\<exists>reason. satisfied self s = (Inr ((True, reason), s), [])))
      \<and> (nsites s = 50 \<and> get_property s ''energy'' = Some (-0.1) \<longrightarrow>
           (\<exists>reason. satisfied self s = (Inr ((False, reason), s), [])))
      \<and> (nsites s = 150 \<and> get_property s ''energy'' = Some (-1.8) \<longrightarrow>
           (\<exists>reason. satisfied self s = (Inr ((False, reason), s), []))))
   \<and> ((\<exists>v. get_property s ''energy'' = Some v \<and> v \<noteq> 0) \<or> (\<exists>v. calculator self s = Inr v) \<longrightarrow>
        (\<exists>b' reason' s''. fst (satisfied self s) = Inr ((b', reason'), s'')))"
proof (intro conjI impI)
  assume "satisfied self s = (Inr ((b, reason), s'), tr)"
  then obtain e where e: "get_property s' ''energy'' = Some e" "nsites s' = nsites s"
      "(b, reason) = scan_criteria (repr_float self) (nsites s) e (criteria self)"
    using satisfied_Inr_cases by blast
  from e(3) have "b = fst (scan_criteria (repr_float self) (nsites s) e (criteria self))"
    and "reason = snd (scan_criteria (repr_float self) (nsites s) e (criteria self))"
    by (metis fst_conv, metis snd_conv)
  with e(1,2) show "\<exists>e. get_property s' ''energy'' = Some e \<and> nsites s' = nsites s \<and> reason \<noteq> [] \<and>
           (b \<longleftrightarrow> (\<exists>(n_threshold, e_threshold) \<in> set (criteria self).
                       n_threshold < int (nsites s) \<and> e_threshold < e))"
    using scan_criteria_fst scan_criteria_snd by metis
next
  assume "criteria self = [(100, -1.5), (200, -2.0)]"
    and "nsites s = 140 \<and> get_property s ''energy'' = Some (-1.3)"
  then show "\<exists>reason. satisfied self s = (Inr ((True, reason), s), [])"
    by (simp add: satisfied_cached)
next
  assume "criteria self = [(100, -1.5), (200, -2.0)]"
    and "nsites s = 50 \<and> get_property s ''energy'' = Some (-0.1)"
  then show "\<exists>reason. satisfied self s = (Inr ((False, reason), s), [])"
    by (simp add: satisfied_cached)
next
  assume "criteria self = [(100, -1.5), (200, -2.0)]"
    and "nsites s = 150 \<and> get_property s ''energy'' = Some (-1.8)"
  then show "\<exists>reason. satisfied self s = (Inr ((False, reason), s), [])"
    by (simp add: satisfied_cached)
next
  assume a: "(\<exists>v. get_property s ''energy'' = Some v \<and> v \<noteq> 0) \<or> (\<exists>v. calculator self s = Inr v)"
  show "\<exists>b' reason' s''. fst (satisfied self s) = Inr ((b', reason'), s'')"
  proof (cases "falsy (get_property s ''energy'')")
    case True
    with a obtain v where "calculator self s = Inr v"
      by (auto simp add: falsy_def)
    with True show ?thesis
      by (simp add: satisfied_computed)
  next
    case False
    then obtain v where "get_property s ''energy'' = Some v" "v \<noteq> 0"
      by (auto simp add: falsy_def split: option.splits)
    then show ?thesis
      by (simp add: satisfied_cached)
  qed
qed

lemma satisfied_docstring_examples:
  "(\<exists>reason. satisfied example_condition (carbon_cell 140 (Some (-1.3)))
       = (Inr ((True, reason), carbon_cell 140 (Some (-1.3))), []) \<and> reason \<noteq> [])
   \<and> (\<exists>(n_threshold, e_threshold) \<in> set (criteria example_condition).
         n_threshold < int (nsites (carbon_cell 140 (Some (-1.3)))) \<and> e_threshold < -1.3)
   \<and> (\<exists>reason. satisfied example_condition (carbon_cell 50 (Some (-0.1)))
       = (Inr ((False, reason), carbon_cell 50 (Some (-0.1))), []))
   \<and> (\<exists>reason. satisfied example_condition (carbon_cell 150 (Some (-1.8)))
       = (Inr ((False, reason), carbon_cell 150 (Some (-1.8))), []))
   \<and> calculator example_condition (carbon_cell 1 None) = Inr (-3)
   \<and> (\<exists>b reason s'. fst (satisfied example_condition (carbon_cell 1 None)) = Inr ((b, reason), s'))"
proof -
  have c: "criteria example_condition = [(100, -1.5), (200, -2.0)]"
    by (simp add: example_condition_def)
  have a: "nsites (carbon_cell 140 (Some (-1.3))) = 140
      \<and> get_property (carbon_cell 140 (Some (-1.3))) ''energy'' = Some (-1.3)"
    by simp
  have b: "nsites (carbon_cell 50 (Some (-0.1))) = 50
      \<and> get_property (carbon_cell 50 (Some (-0.1))) ''energy'' = Some (-0.1)"
    by simp
  have d: "nsites (carbon_cell 150 (Some (-1.8))) = 150
      \<and> get_property (carbon_cell 150 (Some (-1.8))) ''energy'' = Some (-1.8)"
    by simp
  note t = satisfied_on_energy_used [where self = example_condition]
  from t [of "carbon_cell 140 (Some (-1.3))"] c a
  obtain r1 where r1: "satisfied example_condition (carbon_cell 140 (Some (-1.3)))
       = (Inr ((True, r1), carbon_cell 140 (Some (-1.3))), [])"
    by blast
  from t [of "carbon_cell 140 (Some (-1.3))" True r1 "carbon_cell 140 (Some (-1.3))" "[]"] r1
  have r1': "r1 \<noteq> []" and ex: "\<exists>(n_threshold, e_threshold) \<in> set (criteria example_condition).
         n_threshold < int (nsites (carbon_cell 140 (Some (-1.3)))) \<and> e_threshold < -1.3"
    by auto
  from t [of "carbon_cell 50 (Some (-0.1))"] c b
  have r2: "\<exists>reason. satisfied example_condition (carbon_cell 50 (Some (-0.1)))
       = (Inr ((False, reason), carbon_cell 50 (Some (-0.1))), [])"
    by blast
  from t [of "carbon_cell 150 (Some (-1.8))"] c d
  have r3: "\<exists>reason. satisfied example_condition (carbon_cell 150 (Some (-1.8)))
       = (Inr ((False, reason), carbon_cell 150 (Some (-1.8))), [])"
    by blast
  have k: "calculator example_condition (carbon_cell 1 None) = Inr (-3)"
    by (simp add: example_condition_def)
  with t [of "carbon_cell 1 None"]
  have r4: "\<exists>b reason s'. fst (satisfied example_condition (carbon_cell 1 None)) = Inr ((b, reason), s')"
    by blast
  from r1 r1' ex r2 r3 k r4 show ?thesis by blast
qed

text \<open>
  Claim C4 (true exactly when some entry is strictly exceeded by the atom count and by the
  energy of the structure) fails on the code for a cached energy of exactly zero, by the
  test of line 34 that also breaks claim C3. A cell of 140 atoms with cached energy \<open>0\<close>
  strictly exceeds the entry \<open>(100, -1.5)\<close> of the docstring's criteria, yet the energy is
  computed anew, the calculator answers \<open>-3\<close>, and \<^verbatim>\<open>satisfied\<close> returns false.
\<close>

theorem satisfied_false_at_zero_energy:
  "nsites (carbon_cell 140 (Some 0)) = 140
   \<and> get_property (carbon_cell 140 (Some 0)) ''energy'' = Some 0
   \<and> criteria example_condition = [(100, -1.5), (200, -2)]
   \<and> (\<exists>(n_threshold, e_threshold) \<in> set (criteria example_condition).
         n_threshold < int (nsites (carbon_cell 140 (Some 0))) \<and> e_threshold < 0)
   \<and> satisfied example_condition (carbon_cell 140 (Some 0))
       = (Inr ((False, ''SmallEnergyAtoms. no condition satisfied''), carbon_cell 140 (Some (-3))),
          [GetEnergy (carbon_cell 140 (Some 0))])"
proof -
  have c: "criteria example_condition = [(100, -1.5), (200, -2)]"
    by (simp add: example_condition_def)
  have "falsy (get_property (carbon_cell 140 (Some 0)) ''energy'')"
    by (simp add: falsy_def)
  moreover have "calculator example_condition (carbon_cell 140 (Some 0)) = Inr (-3)"
    by (simp add: example_condition_def)
  ultimately have "satisfied example_condition (carbon_cell 140 (Some 0)) =
      (Inr (scan_criteria (repr_float example_condition) (nsites (carbon_cell 140 (Some 0))) (-3)
              (criteria example_condition),
            set_property (carbon_cell 140 (Some 0)) ''energy'' (-3)),
       [GetEnergy (carbon_cell 140 (Some 0))])"
    by (rule satisfied_computed)
  moreover have "set_property (carbon_cell 140 (Some 0)) ''energy'' (-3) = carbon_cell 140 (Some (-3))"
    by (simp add: set_property_def carbon_cell_def)
  moreover have "scan_criteria (repr_float example_condition) 140 (-3) (criteria example_condition)
      = (False, ''SmallEnergyAtoms. no condition satisfied'')"
    by (simp add: c)
  ultimately show ?thesis by (simp add: c)
qed

section \<open>Properties of the density aggregator\<close>

lemma new_coords_known_prefix:
  "new_coords current new_s = concat (map (\<lambda>s. drop (known_prefix current) (frac_coords s)) new_s)"
  by (simp add: new_coords_def known_prefix_def split: option.splits)

lemma appended_failed: "failed w current i \<Longrightarrow> appended w current i = []"
  by (auto simp add: failed_def appended_def split: sum.splits)

lemma logger_warning_no_args:
  "logger_warning policy percent msg [] = (Inr (), [LogWarning msg])"
  by (simp add: logger_warning_def getMessage_def)

lemma logger_warning_unconverted:
  assumes "CHR ''%'' \<notin> set msg" and "args \<noteq> []"
  shows "logger_warning ReportOnStderr percent msg args = (Inr (), [LoggingError msg args])"
    and "logger_warning Reraise percent msg args
      = (Inl (TypeError ''not all arguments converted during string formatting''), [])"
  using assms by (simp_all add: logger_warning_def getMessage_def)

lemma logger_warning_stdlib:
  "\<exists>ev. logger_warning ReportOnStderr percent msg args = (Inr (), [ev])
     \<and> \<not> is_attempt ev \<and> \<not> is_output ev"
  by (cases "getMessage percent msg args")
    (simp_all add: logger_warning_def is_attempt_def is_output_def)

lemma digit_not_percent: "k < 10 \<Longrightarrow> char_of (48 + k :: nat) \<noteq> CHR ''%''"
proof
  assume k: "k < 10" and e: "char_of (48 + k) = CHR ''%''"
  from e have "(of_char (char_of (48 + k) :: char) :: nat) = of_char (CHR ''%'')"
    by simp
  with k show False
    by (simp add: of_char_of)
qed

lemma digits_rev_no_percent: "CHR ''%'' \<notin> set (digits_rev fuel n)"
proof (induction fuel arbitrary: n)
  case 0
  show ?case by simp
next
  case (Suc fuel)
  have m: "CHR ''%'' \<noteq> char_of (48 + n mod 10)"
    by (rule digit_not_percent [THEN not_sym]) simp
  show ?case
  proof (cases "n < 10")
    case True
    from digit_not_percent [OF this, THEN not_sym] True show ?thesis by simp
  next
    case False
    with m Suc show ?thesis by simp
  qed
qed

lemma error_message_no_percent: "CHR ''%'' \<notin> set (''error '' @ str_nat i @ '': '')"
  by (simp del: digits_rev.simps add: str_nat_def digits_rev_no_percent)

lemma attempt_fst: "fst (attempt w current i (fcoords, tr)) = fcoords @ appended w current i"
  by (simp add: attempt_def appended_def new_coords_known_prefix split: sum.splits)

lemma attempt_raised:
  assumes "evolve w i current = Inl err"
  shows "attempt w current i (fcoords, tr)
     = (fcoords, tr @ [Evolve i, LoggingError (''error '' @ str_nat i @ '': '') [format_exc w err]])"
  using assms logger_warning_unconverted(1) [OF error_message_no_percent, of "[format_exc w err]"]
  by (simp add: attempt_def)

lemma attempt_nothing:
  assumes "evolve w i current = Inr []"
  shows "attempt w current i (fcoords, tr)
     = (fcoords, tr @ [Evolve i,
          LogWarning (''at iteration '' @ str_nat i @ '' no structure was generated'')])"
  using assms by (simp add: attempt_def logger_warning_no_args)

lemma attempt_failed:
  assumes "failed w current i"
  shows "\<exists>ev. attempt w current i (fcoords, tr) = (fcoords, tr @ [Evolve i, ev])
     \<and> \<not> is_attempt ev \<and> \<not> is_output ev"
proof (cases "evolve w i current")
  case (Inl err)
  then show ?thesis
    by (simp add: attempt_raised is_attempt_def is_output_def)
next
  case (Inr new_s)
  with assms have "evolve w i current = Inr []" by (simp add: failed_def)
  then show ?thesis
    by (simp add: attempt_nothing is_attempt_def is_output_def)
qed

lemma attempt_snd_attempts:
  "filter is_attempt (snd (attempt w current i (fcoords, tr))) = filter is_attempt tr @ [Evolve i]"
proof (cases "failed w current i")
  case True
  from attempt_failed [OF this, of fcoords tr] show ?thesis
    by (auto simp add: is_attempt_def)
next
  case False
  then show ?thesis
    by (auto simp add: attempt_def failed_def is_attempt_def split: sum.splits)
qed

lemma attempt_snd_output:
  "filter is_output (snd (attempt w current i (fcoords, tr))) = filter is_output tr"
proof (cases "failed w current i")
  case True
  from attempt_failed [OF this, of fcoords tr] show ?thesis
    by (auto simp add: is_output_def)
next
  case False
  then show ?thesis
    by (auto simp add: attempt_def failed_def is_output_def split: sum.splits)
qed

lemma fold_attempt_fst:
  "fst (fold (attempt w current) xs acc) = fst acc @ concat (map (appended w current) xs)"
proof (induction xs arbitrary: acc)
  case Nil
  show ?case by simp
next
  case (Cons i xs)
  obtain fcoords tr where acc: "acc = (fcoords, tr)" by (cases acc)
  show ?case by (simp add: Cons.IH acc attempt_fst)
qed

lemma fold_attempt_attempts:
  "filter is_attempt (snd (fold (attempt w current) xs acc)) = filter is_attempt (snd acc) @ map Evolve xs"
proof (induction xs arbitrary: acc)
  case Nil
  show ?case by simp
next
  case (Cons i xs)
  obtain fcoords tr where acc: "acc = (fcoords, tr)" by (cases acc)
  show ?case by (simp add: Cons.IH acc attempt_snd_attempts)
qed

lemma fold_attempt_output:
  "filter is_output (snd (fold (attempt w current) xs acc)) = filter is_output (snd acc)"
proof (induction xs arbitrary: acc)
  case Nil
  show ?case by simp
next
  case (Cons i xs)
  obtain fcoords tr where acc: "acc = (fcoords, tr)" by (cases acc)
  show ?case by (simp add: Cons.IH acc attempt_snd_output)
qed

lemma generation_loop_fst:
  "fst (generation_loop w current n) = concat (map (appended w current) [0..<n])"
  by (simp add: generation_loop_def fold_attempt_fst)

lemma concat_appended_filter:
  "concat (map (appended w current) (filter (\<lambda>i. \<not> failed w current i) xs))
     = concat (map (appended w current) xs)"
  by (induction xs) (simp_all add: appended_failed)

lemma length_concat_appended:
  assumes "\<forall>i \<in> set xs. \<not> failed w current i \<longrightarrow> length (appended w current i) = 1"
  shows "length (concat (map (appended w current) xs)) + length (filter (failed w current) xs) = length xs"
  using assms by (induction xs) (auto simp add: appended_failed)

text \<open>
  Claim C5: the accumulator after \<open>n\<close> attempts is the concatenation, attempt by attempt,
  of the coordinates of the atoms beyond the known prefix, and nothing else. When every
  attempt that did not fail contributes exactly one new atom, the number of collected
  coordinates is \<open>n\<close> minus the number of failed attempts, and so at most \<open>n\<close>.
\<close>

theorem generation_loop_collects_new_atoms:
  "fst (generation_loop w current n) = concat (map (appended w current) [0..<n])
   \<and> ((\<forall>i<n. \<not> failed w current i \<longrightarrow> length (appended w current i) = 1) \<longrightarrow>
        length (fst (generation_loop w current n)) = n - length (filter (failed w current) [0..<n])
        \<and> length (fst (generation_loop w current n)) \<le> n)"
proof (intro conjI impI)
  show "fst (generation_loop w current n) = concat (map (appended w current) [0..<n])"
    by (rule generation_loop_fst)
next
  assume h: "\<forall>i<n. \<not> failed w current i \<longrightarrow> length (appended w current i) = 1"
  then have "\<forall>i \<in> set [0..<n]. \<not> failed w current i \<longrightarrow> length (appended w current i) = 1"
    by simp
  from length_concat_appended [OF this]
  have "length (fst (generation_loop w current n)) + length (filter (failed w current) [0..<n]) = n"
    by (simp add: generation_loop_fst)
  then show "length (fst (generation_loop w current n)) = n - length (filter (failed w current) [0..<n])"
    and "length (fst (generation_loop w current n)) \<le> n"
    by arith+
qed

text \<open>
  Under the handlers of the standard library the loop goes on after a failed attempt: the
  attempt leaves the accumulator as it was and adds one record of the logging call to the
  trace; the loop makes all \<open>n\<close> attempts in order; and the coordinates collected are
  those the loop collects over the attempts that did not fail.
\<close>

lemma generation_loop_goes_on:
  "(failed w current i \<longrightarrow>
      (\<exists>ev. attempt w current i (fcoords, tr) = (fcoords, tr @ [Evolve i, ev])
          \<and> \<not> is_attempt ev \<and> \<not> is_output ev))
   \<and> filter is_attempt (snd (generation_loop w current n)) = map Evolve [0..<n]
   \<and> fst (generation_loop w current n)
       = fst (fold (attempt w current) (filter (\<lambda>i. \<not> failed w current i) [0..<n]) ([], []))"
  using attempt_failed [of w current i fcoords tr]
  by (simp add: generation_loop_def fold_attempt_attempts fold_attempt_fst concat_appended_filter)

lemma failed_example: "failed example_world current i \<longleftrightarrow> i = 1 \<or> i = 3"
  by (simp add: failed_def example_world_def)

lemma drop_carbon_cell: "drop n (frac_coords (carbon_cell (Suc n) e)) = [(0, 0, 0)]"
  using drop_replicate [of n "Suc n" "(0, 0, 0) :: vec3"] by (simp add: carbon_cell_def)

lemma appended_example:
  "appended example_world current i = (if i = 1 \<or> i = 3 then [] else [(0, 0, 0)])"
  by (simp add: appended_def example_world_def drop_carbon_cell)

lemma filter_failed_example: "filter (failed example_world current) [0..<5] = [1, 3]"
  by (simp add: failed_example upt_rec)

text \<open>
  Five attempts on a current structure of two atoms, attempts 1 and 3 failing: three
  coordinates are collected.
\<close>

theorem generation_loop_collects_new_atoms_witness:
  "length (fst (generation_loop example_world (Some (carbon_cell 2 None)) 5)) = 3
   \<and> length (filter (failed example_world (Some (carbon_cell 2 None))) [0..<5]) = 2
   \<and> fst (generation_loop example_world (Some (carbon_cell 2 None)) 5)
       = [(0, 0, 0), (0, 0, 0), (0, 0, 0)]"
proof -
  have h: "\<forall>i<5. \<not> failed example_world (Some (carbon_cell 2 None)) i \<longrightarrow>
      length (appended example_world (Some (carbon_cell 2 None)) i) = 1"
    by (simp add: failed_example appended_example)
  have m: "concat (map (appended example_world (Some (carbon_cell 2 None))) [0..<5])
      = [(0, 0, 0), (0, 0, 0), (0, 0, 0)]"
    by (simp add: appended_example upt_rec)
  from generation_loop_collects_new_atoms [of example_world "Some (carbon_cell 2 None)" 5] h m
  show ?thesis by (simp add: filter_failed_example)
qed

lemma str_nat_digit: "n < 10 \<Longrightarrow> str_nat n = [char_of (48 + n)]"
  by (simp add: str_nat_def)

lemma char_of_digits: "char_of (49 :: nat) = CHR ''1''" "char_of (51 :: nat) = CHR ''3''"
  by code_simp+

lemma attempt_example:
  "attempt example_world None i (fcoords, tr)
     = (if i = 1
        then (fcoords, tr @ [Evolve i,
                LoggingError (''error '' @ str_nat i @ '': '') [''Traceback (most recent call last): ...'']])
        else if i = 3
        then (fcoords, tr @ [Evolve i,
                LogWarning (''at iteration '' @ str_nat i @ '' no structure was generated'')])
        else (fcoords @ [(0, 0, 0)], tr @ [Evolve i]))"
proof -
  have e: "evolve example_world i None
      = (if i = 1 then Inl (OtherError ''no position found'')
         else if i = 3 then Inr [] else Inr [carbon_cell 1 None])"
    by (simp add: example_world_def known_prefix_def)
  have f: "format_exc example_world err = ''Traceback (most recent call last): ...''" for err
    by (simp add: example_world_def)
  show ?thesis
  proof (cases "i = 1")
    case True
    with e have "evolve example_world i None = Inl (OtherError ''no position found'')" by simp
    from attempt_raised [OF this, of fcoords tr] True show ?thesis by (simp add: f)
  next
    case False
    show ?thesis
    proof (cases "i = 3")
      case True
      with e have "evolve example_world i None = Inr []" by simp
      from attempt_nothing [OF this, of fcoords tr] True show ?thesis by simp
    next
      case False
      with \<open>i \<noteq> 1\<close> e show ?thesis
        by (simp add: attempt_def new_coords_def carbon_cell_def)
    qed
  qed
qed

lemma logged_example:
  "filter is_logged (snd (generation_loop example_world None 5))
     = [LogWarning (''at iteration '' @ str_nat 3 @ '' no structure was generated'')]"
  by (simp add: generation_loop_def upt_rec attempt_example is_logged_def numeral_3_eq_3)

text \<open>
  Claim C6 (an error raised by the evolver in an attempt is logged, and no bad attempt
  aborts the run) fails on the code at line 75: the traceback is handed to
  \<^verbatim>\<open>logger.warning\<close> as an argument of a message that holds no conversion for it. In a
  run of five attempts in which attempt 1 raises and attempt 3 returns nothing, the record
  of attempt 1 cannot be rendered: under the handlers of the standard library the only
  message that reaches the log is the warning of attempt 3, and under a handler that
  raises again the logging call of attempt 1 raises a TypeError from within the
  \<^verbatim>\<open>except\<close> block.
\<close>

theorem attempt_error_is_not_logged:
  "evolve example_world 1 None = Inl (OtherError ''no position found'')
   \<and> attempt example_world None 1 ([(0, 0, 0)], [Evolve 0])
       = ([(0, 0, 0)],
          [Evolve 0, Evolve 1, LoggingError ''error 1: '' [''Traceback (most recent call last): ...'']])
   \<and> filter is_logged (snd (generation_loop example_world None 5))
       = [LogWarning ''at iteration 3 no structure was generated'']
   \<and> logger_warning Reraise (percent_format example_world) ''error 1: ''
         [''Traceback (most recent call last): ...'']
       = (Inl (TypeError ''not all arguments converted during string formatting''), [])"
proof -
  have a: "evolve example_world 1 None = Inl (OtherError ''no position found'')"
    by (simp add: example_world_def)
  have b: "attempt example_world None 1 ([(0, 0, 0)], [Evolve 0])
       = ([(0, 0, 0)],
          [Evolve 0, Evolve 1, LoggingError ''error 1: '' [''Traceback (most recent call last): ...'']])"
    by (simp add: attempt_example str_nat_digit char_of_digits)
  have c: "filter is_logged (snd (generation_loop example_world None 5))
       = [LogWarning ''at iteration 3 no structure was generated'']"
    by (simp add: logged_example str_nat_digit char_of_digits)
  have d: "logger_warning Reraise (percent_format example_world) ''error 1: ''
         [''Traceback (most recent call last): ...'']
       = (Inl (TypeError ''not all arguments converted during string formatting''), [])"
    by (simp add: logger_warning_def getMessage_def)
  from a b c d show ?thesis by simp
qed

lemma first_frame_Nil: "first_frame [] = raise_r IndexError"
  by (simp add: first_frame_def)

lemma distribution_density_empty:
  assumes "fst (generation_loop w current n) = []"
  shows "distribution_density (Some pda) w template current n interval filepath profile
     = (Inl IndexError, snd (generation_loop w current n) @ (if profile then [LogInfo (print_stats w)] else []))"
proof -
  obtain fc tr where g: "generation_loop w current n = (fc, tr)" by (cases "generation_loop w current n")
  with assms have "fc = []" by simp
  with g show ?thesis
    by (simp add: distribution_density_def requires_def reshape_frames_def first_frame_Nil raise_r_def Let_def)
qed

text \<open>
  Claim C10: when every attempt fails, \<^verbatim>\<open>distribution_density\<close> raises an IndexError (at
  \<^verbatim>\<open>fcoords[0]\<close>, line 88) and neither the density analysis nor the writer is called.
\<close>

theorem distribution_density_fails_on_no_points:
  "(\<forall>i<n. failed w current i) \<longrightarrow>
     fst (distribution_density (Some pda) w template current n interval filepath profile) = Inl IndexError
     \<and> filter is_output (snd (distribution_density (Some pda) w template current n interval filepath profile)) = []"
proof
  assume a: "\<forall>i<n. failed w current i"
  then have "\<forall>i \<in> set [0..<n]. appended w current i = []"
    by (simp add: appended_failed)
  then have "concat (map (appended w current) [0..<n]) = []"
    by simp
  then have e: "fst (generation_loop w current n) = []"
    by (simp add: generation_loop_fst)
  have "filter is_output (snd (generation_loop w current n)) = []"
    by (simp add: generation_loop_def fold_attempt_output)
  then show "fst (distribution_density (Some pda) w template current n interval filepath profile) = Inl IndexError
     \<and> filter is_output (snd (distribution_density (Some pda) w template current n interval filepath profile)) = []"
    by (simp add: distribution_density_empty [OF e] is_output_def)
qed

text \<open>
  Three attempts with an evolver that never produces a structure.
\<close>

theorem distribution_density_fails_on_no_points_witness:
  "failed barren_world None 0 \<and> failed barren_world None 1 \<and> failed barren_world None 2
   \<and> fst (distribution_density (Some example_pda) barren_world (carbon_cell 2 None) None 3 0.5
           (Some ''CHGCAR'') False) = Inl IndexError"
proof -
  have f: "\<And>i. failed barren_world None i"
    by (simp add: failed_def barren_world_def)
  then have "\<forall>i<3. failed barren_world None i" by simp
  with distribution_density_fails_on_no_points [of 3 barren_world None example_pda "carbon_cell 2 None" "0.5" "Some ''CHGCAR''" False] f
  show ?thesis by simp
qed

lemma generation_loop_one:
  "generation_loop example_world None (Suc 0) = ([(0, 0, 0)], [Evolve 0])"
  by (simp add: generation_loop_def attempt_def example_world_def new_coords_def known_prefix_def carbon_cell_def)

text \<open>
  Claim C2 (with no path given no file is written and the artifact is returned) fails on
  the code: line 96 calls \<^verbatim>\<open>chgcar.write_file(filepath)\<close> whatever the path is. With
  \<^verbatim>\<open>filepath=None\<close> and a writer that opens its path, the run ends in the writer's
  TypeError and returns no artifact.
\<close>

theorem distribution_density_writes_without_path:
  "distribution_density (Some example_pda) example_world (carbon_cell 2 None) None 1 0.5 None False
     = (Inl (TypeError ''expected str, bytes or os.PathLike object, not NoneType''),
        [Evolve 0,
         DensityAnalysis \<lparr>lattice = lattice (carbon_cell 2 None), species = [''C''],
                           frac_coords = [(0, 0, 0)], properties = []\<rparr> [[(0, 0, 0)]] 0.5,
         WriteFile None])"
proof -
  have w: "write_file example_world c None
      = Inl (TypeError ''expected str, bytes or os.PathLike object, not NoneType'')" for c
    by (simp add: example_world_def)
  show ?thesis
    by (simp add: distribution_density_def requires_def generation_loop_one reshape_frames_def
        first_frame_def pure_r_def example_pda_def Let_def w)
qed

lemma distribution_density_always_writes:
  assumes "distribution_density pda w template current n interval filepath profile = (Inr chgcar, tr)"
  shows "WriteFile filepath \<in> set tr"
  using assms
  by (auto simp add: distribution_density_def requires_def raise_r_def pure_r_def call_r_def bind_r_def Let_def first_frame_def
      split: option.splits prod.splits sum.splits list.splits if_splits)

section \<open>Properties of the subgroup deriver\<close>

lemma except_ValueError_Inr [simp]: "except_ValueError (Inr x, t) h = (Inr x, t)"
  by (simp add: except_ValueError_def)

lemma except_ValueError_ValueError [simp]:
  "except_ValueError (Inl (ValueError msg), t) h = (fst h, t @ snd h)"
  by (simp add: except_ValueError_def split: prod.splits)

lemma except_ValueError_pure [simp]: "except_ValueError (pure_r x) h = pure_r x"
  by (simp add: pure_r_def)

text \<open>
  Claim C7: with the primitive cell asked for and \<open>eps\<close> exactly zero the call raises the
  ValueError of line 52 and the trace is empty: no collaborator of pyxtal or pymatgen has
  been called. (pyxtal is importable; otherwise the decorator raises before the body.)
\<close>

theorem get_subgroup_structure_rejects_zero_eps:
  "get_subgroup_structure (Some px) pmg struct spgn idx 0 group_type True symprec angle_tolerance
      expected_initial_spgn
     = (Inl (ValueError ''to determine the primitive structure eps should be greater than 0''), [])"
  by (simp add: get_subgroup_structure_def requires_def raise_r_def)

text \<open>
  The same on a concrete call.
\<close>

theorem get_subgroup_structure_rejects_zero_eps_witness:
  "fst (get_subgroup_structure (Some example_pyxtal) blind_pymatgen (carbon_cell 2 None) (Some 3)
          None 0 ''t'' True 0.001 5 None)
     = Inl (ValueError ''to determine the primitive structure eps should be greater than 0'')
   \<and> snd (get_subgroup_structure (Some example_pyxtal) blind_pymatgen (carbon_cell 2 None) (Some 3)
          None 0 ''t'' True 0.001 5 None) = []"
  using get_subgroup_structure_rejects_zero_eps [of example_pyxtal blind_pymatgen
      "carbon_cell 2 None" "Some 3" None "''t''" "0.001" 5 None]
  by simp

lemma symprec_sub_double: "symprec_sub eps (Suc i) = 2 * symprec_sub eps i"
  by (simp add: symprec_sub_def)

lemma symprec_sub_values:
  "map (symprec_sub eps) [1..<9] = [eps / 8, eps / 4, eps / 2, eps, 2 * eps, 4 * eps, 8 * eps, 16 * eps]"
  by (simp add: symprec_sub_def upt_rec)

lemma pass_no_match:
  assumes "no_match pmg s tol spgn"
  shows "bind_r (SpacegroupAnalyzer pmg s tol) (\<lambda>a. try_primitive pmg spgn tol s a)
     = (Inr (Continue s), [NewAnalyzer s tol, GetSpaceGroupNumber \<lparr>spga_structure = s, spga_symprec = tol\<rparr>])"
proof -
  let ?a = "\<lparr>spga_structure = s, spga_symprec = tol\<rparr>"
  from assms have i: "analyzer_init pmg s tol = Inr ()"
    by (simp add: no_match_def)
  have "try_primitive pmg spgn tol s ?a = (Inr (Continue s), [GetSpaceGroupNumber ?a])"
  proof (cases "space_group_number pmg ?a")
    case (Inl err)
    with assms obtain msg where "err = ValueError msg"
      by (cases err) (simp_all add: no_match_def)
    with Inl show ?thesis
      by (simp add: try_primitive_def get_space_group_number_def pure_r_def)
  next
    case (Inr n)
    with assms have "n \<noteq> Some spgn" by (simp add: no_match_def)
    with Inr show ?thesis
      by (simp add: try_primitive_def get_space_group_number_def pure_r_def)
  qed
  with i show ?thesis
    by (simp add: SpacegroupAnalyzer_def pure_r_def)
qed

lemma primitive_scan_step:
  "primitive_scan pmg eps spgn s (i # passes)
      = bind_r (bind_r (SpacegroupAnalyzer pmg s (symprec_sub eps i))
                  (\<lambda>a. try_primitive pmg spgn (symprec_sub eps i) s a))
          (\<lambda>ctl. case ctl of Break prim a' \<Rightarrow> pure_r (prim, a')
                   | Continue s' \<Rightarrow> primitive_scan pmg eps spgn s' passes)"
  by (simp add: bind_r_def split: prod.splits sum.splits)

lemma primitive_scan_no_match:
  assumes "\<forall>i \<in> set passes. no_match pmg s (symprec_sub eps i) spgn"
  shows "fst (primitive_scan pmg eps spgn s passes)
      = Inl (RuntimeError ''Could not find a value of symprec that matches the original space group'')
    \<and> tolerances_tried (snd (primitive_scan pmg eps spgn s passes)) = map (symprec_sub eps) passes"
  using assms
proof (induction passes)
  case Nil
  show ?case by (simp add: raise_r_def tolerances_tried_def)
next
  case (Cons i passes)
  then have nm: "no_match pmg s (symprec_sub eps i) spgn" by simp
  from Cons show ?case
    by (simp del: primitive_scan.simps
        add: primitive_scan_step pass_no_match [OF nm] tolerances_tried_def)
qed

lemma derive_subgroup_no_analyzer:
  "tolerances_tried (snd (derive_subgroup px struct spgn idx eps group_type symprec angle_tolerance expected)) = []"
  by (simp add: derive_subgroup_def tolerances_tried_def bind_r_def call_r_def raise_r_def pure_r_def
      first_subgroup_def Let_def split: sum.splits prod.splits list.splits)

lemma upt_split: "i \<le> k \<Longrightarrow> k < n \<Longrightarrow> [i..<n] = [i..<k] @ k # [Suc k..<n]"
proof -
  assume a: "i \<le> k" "k < n"
  then have "[i..<n] = [i..<k] @ [k..<n]"
    using upt_add_eq_append [of i k "n - k"] by simp
  moreover from a have "[k..<n] = k # [Suc k..<n]"
    by (simp add: upt_conv_Cons)
  ultimately show ?thesis by simp
qed

lemma pass_full_match:
  assumes "full_match pmg s tol spgn prim"
  shows "bind_r (SpacegroupAnalyzer pmg s tol) (\<lambda>a. try_primitive pmg spgn tol s a)
     = (Inr (Break prim \<lparr>spga_structure = prim, spga_symprec = tol\<rparr>),
        [NewAnalyzer s tol, GetSpaceGroupNumber \<lparr>spga_structure = s, spga_symprec = tol\<rparr>,
         GetPrimitive \<lparr>spga_structure = s, spga_symprec = tol\<rparr>,
         NewAnalyzer prim tol, GetSpaceGroupNumber \<lparr>spga_structure = prim, spga_symprec = tol\<rparr>])"
  using assms
  by (simp add: full_match_def SpacegroupAnalyzer_def try_primitive_def get_space_group_number_def
      get_primitive_standard_structure_def pure_r_def)

lemma primitive_scan_first_match:
  assumes "\<forall>i \<in> set before. no_match pmg s (symprec_sub eps i) spgn"
    and "full_match pmg s (symprec_sub eps k) spgn prim"
  shows "fst (primitive_scan pmg eps spgn s (before @ k # rest))
      = Inr (prim, \<lparr>spga_structure = prim, spga_symprec = symprec_sub eps k\<rparr>)
    \<and> tolerances_tried (snd (primitive_scan pmg eps spgn s (before @ k # rest)))
      = map (symprec_sub eps) (before @ [k, k])"
  using assms
proof (induction before)
  case Nil
  show ?case
    by (simp del: primitive_scan.simps
        add: primitive_scan_step pass_full_match [OF Nil(2)] tolerances_tried_def pure_r_def)
next
  case (Cons i before)
  then have nm: "no_match pmg s (symprec_sub eps i) spgn" by simp
  from Cons show ?case
    by (simp del: primitive_scan.simps
        add: primitive_scan_step pass_no_match [OF nm] tolerances_tried_def)
qed

lemma get_subgroup_structure_primitive:
  assumes "eps \<noteq> 0"
    and "derive_subgroup px struct spgn idx eps group_type symprec angle_tolerance expected
        = (Inr (sub_struct, target), tr0)"
  shows "get_subgroup_structure (Some px) pmg struct spgn idx eps group_type True symprec
             angle_tolerance expected
     = bind_r (Inr (), tr0)
         (\<lambda>u. bind_r (primitive_scan pmg eps target sub_struct [1..<9])
            (\<lambda>(sub_struct', a). bind_r (get_symmetry_operations pmg a)
                (\<lambda>sym_ops. pure_r (sub_struct', sym_ops))))"
  using assms by (simp add: get_subgroup_structure_def requires_def)

lemma tolerances_tried_append:
  "tolerances_tried (xs @ ys) = tolerances_tried xs @ tolerances_tried ys"
  by (simp add: tolerances_tried_def)

lemma search_succeeds:
  assumes e: "eps \<noteq> 0"
    and d: "derive_subgroup px struct spgn idx eps group_type symprec angle_tolerance expected
        = (Inr (sub_struct, target), tr0)"
    and k: "1 \<le> k" "k \<le> 8"
    and nm: "\<forall>i \<in> {1..<k}. no_match pmg sub_struct (symprec_sub eps i) target"
    and fm: "full_match pmg sub_struct (symprec_sub eps k) target prim"
    and ops: "symmetry_operations pmg \<lparr>spga_structure = prim, spga_symprec = symprec_sub eps k\<rparr>
        = Inr sym_ops"
  shows "fst (get_subgroup_structure (Some px) pmg struct spgn idx eps group_type True symprec
             angle_tolerance expected) = Inr (prim, sym_ops)
    \<and> tolerances_tried (snd (get_subgroup_structure (Some px) pmg struct spgn idx eps group_type
             True symprec angle_tolerance expected))
        = map (symprec_sub eps) ([1..<Suc k] @ [k])"
proof -
  from k have s: "[1..<9] = [1..<k] @ k # [Suc k..<9]"
    by (simp add: upt_split)
  from nm have "\<forall>i \<in> set [1..<k]. no_match pmg sub_struct (symprec_sub eps i) target"
    by simp
  from primitive_scan_first_match [OF this fm, of "[Suc k..<9]"]
  obtain tr where p: "primitive_scan pmg eps target sub_struct [1..<9]
      = (Inr (prim, \<lparr>spga_structure = prim, spga_symprec = symprec_sub eps k\<rparr>), tr)"
    and t: "tolerances_tried tr = map (symprec_sub eps) ([1..<k] @ [k, k])"
    unfolding s by (metis prod.collapse)
  from derive_subgroup_no_analyzer [of px struct spgn idx eps group_type symprec angle_tolerance expected] d
  have t0: "tolerances_tried tr0 = []" by simp
  from k have u: "[1..<Suc k] = [1..<k] @ [k]" by simp
  have "get_subgroup_structure (Some px) pmg struct spgn idx eps group_type True symprec
             angle_tolerance expected
      = (Inr (prim, sym_ops),
         tr0 @ tr @ [GetSymmetryOperations \<lparr>spga_structure = prim, spga_symprec = symprec_sub eps k\<rparr>])"
    unfolding get_subgroup_structure_primitive [OF e d] p
    by (simp add: get_symmetry_operations_def ops pure_r_def)
  then show ?thesis
    unfolding u by (simp add: tolerances_tried_append t t0) (simp add: tolerances_tried_def)
qed

text \<open>
  Claim C1, amended: with the primitive cell asked for and \<open>eps\<close> not zero, once the subgroup
  is derived the loop builds its analyzers with the tolerances \<open>eps * 2 ^ i / 16\<close> for
  \<open>i\<close> from 1 to 8, that is \<open>eps / 8\<close> up to \<open>16 * eps\<close>, each the double of the one
  before; when none of the eight passes yields the target number the call raises the
  RuntimeError of line 83 after exactly these eight tolerances; and when pass \<open>k\<close> is the
  first to yield it, and the primitive structure confirms it at the same tolerance, the
  call returns the primitive structure and its operations after the tolerances of the
  passes 1 to \<open>k\<close>.
\<close>

theorem primitive_search_doubles_tolerance:
  "(eps \<noteq> 0
    \<and> derive_subgroup px struct spgn idx eps group_type symprec angle_tolerance expected
        = (Inr (sub_struct, target), tr0)
    \<and> (\<forall>i \<in> {1..8}. no_match pmg sub_struct (symprec_sub eps i) target)
    \<longrightarrow>
      fst (get_subgroup_structure (Some px) pmg struct spgn idx eps group_type True symprec
             angle_tolerance expected)
        = Inl (RuntimeError ''Could not find a value of symprec that matches the original space group'')
      \<and> tolerances_tried (snd (get_subgroup_structure (Some px) pmg struct spgn idx eps group_type
             True symprec angle_tolerance expected))
        = [eps / 8, eps / 4, eps / 2, eps, 2 * eps, 4 * eps, 8 * eps, 16 * eps])
   \<and> (eps \<noteq> 0
       \<and> derive_subgroup px struct spgn idx eps group_type symprec angle_tolerance expected
           = (Inr (sub_struct, target), tr0)
       \<and> 1 \<le> k \<and> k \<le> 8
       \<and> (\<forall>i \<in> {1..<k}. no_match pmg sub_struct (symprec_sub eps i) target)
       \<and> full_match pmg sub_struct (symprec_sub eps k) target prim
       \<and> symmetry_operations pmg \<lparr>spga_structure = prim, spga_symprec = symprec_sub eps k\<rparr>
           = Inr sym_ops
       \<longrightarrow>
         fst (get_subgroup_structure (Some px) pmg struct spgn idx eps group_type True symprec
                angle_tolerance expected) = Inr (prim, sym_ops)
         \<and> tolerances_tried (snd (get_subgroup_structure (Some px) pmg struct spgn idx eps
                group_type True symprec angle_tolerance expected))
           = map (symprec_sub eps) ([1..<Suc k] @ [k]))
   \<and> map (symprec_sub eps) [1..<9]
       = [eps / 8, eps / 4, eps / 2, eps, 2 * eps, 4 * eps, 8 * eps, 16 * eps]
   \<and> symprec_sub eps (Suc i) = 2 * symprec_sub eps i"
proof (intro conjI impI)
  assume a: "eps \<noteq> 0
    \<and> derive_subgroup px struct spgn idx eps group_type symprec angle_tolerance expected
        = (Inr (sub_struct, target), tr0)
    \<and> (\<forall>i \<in> {1..8}. no_match pmg sub_struct (symprec_sub eps i) target)"
  then have d: "derive_subgroup px struct spgn idx eps group_type symprec angle_tolerance expected
        = (Inr (sub_struct, target), tr0)" by simp
  from a have "\<forall>i \<in> set [1..<9]. no_match pmg sub_struct (symprec_sub eps i) target"
    by auto
  from primitive_scan_no_match [OF this]
  have s: "fst (primitive_scan pmg eps target sub_struct [1..<9])
      = Inl (RuntimeError ''Could not find a value of symprec that matches the original space group'')"
    and t: "tolerances_tried (snd (primitive_scan pmg eps target sub_struct [1..<9]))
      = map (symprec_sub eps) [1..<9]"
    by simp_all
  from derive_subgroup_no_analyzer [of px struct spgn idx eps group_type symprec angle_tolerance expected] d
  have t0: "tolerances_tried tr0 = []" by simp
  obtain r tr where p: "primitive_scan pmg eps target sub_struct [1..<9] = (r, tr)"
    by (cases "primitive_scan pmg eps target sub_struct [1..<9]")
  with s t have r: "r = Inl (RuntimeError ''Could not find a value of symprec that matches the original space group'')"
    and tr: "tolerances_tried tr = map (symprec_sub eps) [1..<9]"
    by simp_all
  from a have g: "get_subgroup_structure (Some px) pmg struct spgn idx eps group_type True symprec
             angle_tolerance expected = (Inl (RuntimeError ''Could not find a value of symprec that matches the original space group''), tr0 @ tr)"
    by (simp add: get_subgroup_structure_def requires_def d p [simplified] r)
  show "fst (get_subgroup_structure (Some px) pmg struct spgn idx eps group_type True symprec
             angle_tolerance expected)
        = Inl (RuntimeError ''Could not find a value of symprec that matches the original space group'')"
    by (simp add: g)
  from t0 tr have "tolerances_tried (tr0 @ tr) = map (symprec_sub eps) [1..<9]"
    by (simp add: tolerances_tried_def)
  then show "tolerances_tried (snd (get_subgroup_structure (Some px) pmg struct spgn idx eps group_type
             True symprec angle_tolerance expected))
        = [eps / 8, eps / 4, eps / 2, eps, 2 * eps, 4 * eps, 8 * eps, 16 * eps]"
    unfolding g symprec_sub_values by simp
next
  assume a: "eps \<noteq> 0
       \<and> derive_subgroup px struct spgn idx eps group_type symprec angle_tolerance expected
           = (Inr (sub_struct, target), tr0)
       \<and> 1 \<le> k \<and> k \<le> 8
       \<and> (\<forall>i \<in> {1..<k}. no_match pmg sub_struct (symprec_sub eps i) target)
       \<and> full_match pmg sub_struct (symprec_sub eps k) target prim
       \<and> symmetry_operations pmg \<lparr>spga_structure = prim, spga_symprec = symprec_sub eps k\<rparr>
           = Inr sym_ops"
  then have e: "eps \<noteq> 0"
    and d: "derive_subgroup px struct spgn idx eps group_type symprec angle_tolerance expected
           = (Inr (sub_struct, target), tr0)"
    and k: "1 \<le> k" "k \<le> 8"
    and nm: "\<forall>i \<in> {1..<k}. no_match pmg sub_struct (symprec_sub eps i) target"
    and fm: "full_match pmg sub_struct (symprec_sub eps k) target prim"
    and ops: "symmetry_operations pmg \<lparr>spga_structure = prim, spga_symprec = symprec_sub eps k\<rparr>
           = Inr sym_ops"
    by blast+
  from search_succeeds [OF e d k nm fm ops]
  show "fst (get_subgroup_structure (Some px) pmg struct spgn idx eps group_type True symprec
                angle_tolerance expected) = Inr (prim, sym_ops)"
    and "tolerances_tried (snd (get_subgroup_structure (Some px) pmg struct spgn idx eps
                group_type True symprec angle_tolerance expected))
           = map (symprec_sub eps) ([1..<Suc k] @ [k])"
    by simp_all
next
  show "map (symprec_sub eps) [1..<9]
       = [eps / 8, eps / 4, eps / 2, eps, 2 * eps, 4 * eps, 8 * eps, 16 * eps]"
    by (rule symprec_sub_values)
next
  show "symprec_sub eps (Suc i) = 2 * symprec_sub eps i"
    by (rule symprec_sub_double)
qed

lemma derive_example:
  "derive_subgroup example_pyxtal s (Some 3) None eps gt symprec atol None
     = (Inr (s, 3), [FromSeed s symprec atol, Subgroup (Some 3) None eps gt])"
  by (simp add: derive_subgroup_def example_pyxtal_def first_subgroup_def pure_r_def)

lemma no_match_blind: "no_match blind_pymatgen s tol 3"
  by (simp add: no_match_def blind_pymatgen_def)

lemma full_match_coarse:
  "full_match coarse_pymatgen s (symprec_sub 1 4) 3 s"
  by (simp add: full_match_def coarse_pymatgen_def symprec_sub_def)

lemma no_match_coarse:
  "i < 4 \<Longrightarrow> no_match coarse_pymatgen s (symprec_sub 1 i) 3"
proof -
  assume "i < 4"
  then have "i = 0 \<or> i = 1 \<or> i = 2 \<or> i = 3" by arith
  then show ?thesis
    by (auto simp add: no_match_def coarse_pymatgen_def symprec_sub_def)
qed

text \<open>
  Runs with \<open>eps = 1\<close>: against an analyzer that never reports the target, and against
  one that reports it from tolerance 1 on, met in pass 4.
\<close>

theorem primitive_search_doubles_tolerance_witness:
  "(1 :: real) \<noteq> 0
   \<and> derive_subgroup example_pyxtal (carbon_cell 2 None) (Some 3) None 1 ''t'' 0.001 5 None
       = (Inr (carbon_cell 2 None, 3),
          [FromSeed (carbon_cell 2 None) 0.001 5, Subgroup (Some 3) None 1 ''t''])
   \<and> no_match blind_pymatgen (carbon_cell 2 None) (symprec_sub 1 1) 3
   \<and> no_match blind_pymatgen (carbon_cell 2 None) (symprec_sub 1 8) 3
   \<and> fst (get_subgroup_structure (Some example_pyxtal) blind_pymatgen (carbon_cell 2 None) (Some 3)
            None 1 ''t'' True 0.001 5 None)
       = Inl (RuntimeError ''Could not find a value of symprec that matches the original space group'')
   \<and> tolerances_tried (snd (get_subgroup_structure (Some example_pyxtal) blind_pymatgen
            (carbon_cell 2 None) (Some 3) None 1 ''t'' True 0.001 5 None))
       = [1 / 8, 1 / 4, 1 / 2, 1, 2, 4, 8, 16]
   \<and> no_match coarse_pymatgen (carbon_cell 2 None) (symprec_sub 1 3) 3
   \<and> full_match coarse_pymatgen (carbon_cell 2 None) (symprec_sub 1 4) 3 (carbon_cell 2 None)
   \<and> symmetry_operations coarse_pymatgen
         \<lparr>spga_structure = carbon_cell 2 None, spga_symprec = symprec_sub 1 4\<rparr> = Inr []
   \<and> fst (get_subgroup_structure (Some example_pyxtal) coarse_pymatgen (carbon_cell 2 None) (Some 3)
            None 1 ''t'' True 0.001 5 None) = Inr (carbon_cell 2 None, [])
   \<and> tolerances_tried (snd (get_subgroup_structure (Some example_pyxtal) coarse_pymatgen
            (carbon_cell 2 None) (Some 3) None 1 ''t'' True 0.001 5 None))
       = [1 / 8, 1 / 4, 1 / 2, 1, 1]"
proof -
  have n': "\<forall>i \<in> {1..<4}. no_match coarse_pymatgen (carbon_cell 2 None) (symprec_sub 1 i) 3"
    by (simp add: no_match_coarse)
  have o: "symmetry_operations coarse_pymatgen
         \<lparr>spga_structure = carbon_cell 2 None, spga_symprec = symprec_sub 1 4\<rparr> = Inr []"
    by (simp add: coarse_pymatgen_def)
  have u: "map (symprec_sub 1) ([1..<Suc 4] @ [4]) = [1 / 8, 1 / 4, 1 / 2, 1, 1]"
    by (simp add: symprec_sub_def upt_rec)
  from primitive_search_doubles_tolerance [of 1 example_pyxtal "carbon_cell 2 None" "Some 3" None
      "''t''" "0.001" 5 None "carbon_cell 2 None" 3
      "[FromSeed (carbon_cell 2 None) 0.001 5, Subgroup (Some 3) None 1 ''t'']" coarse_pymatgen
      4 "carbon_cell 2 None" "[]"]
    derive_example [of "carbon_cell 2 None" 1 "''t''" "0.001" 5] n' o
    full_match_coarse [of "carbon_cell 2 None"]
  have c: "fst (get_subgroup_structure (Some example_pyxtal) coarse_pymatgen (carbon_cell 2 None) (Some 3)
            None 1 ''t'' True 0.001 5 None) = Inr (carbon_cell 2 None, [])
     \<and> tolerances_tried (snd (get_subgroup_structure (Some example_pyxtal) coarse_pymatgen
            (carbon_cell 2 None) (Some 3) None 1 ''t'' True 0.001 5 None))
       = [1 / 8, 1 / 4, 1 / 2, 1, 1]"
    unfolding u by simp
  have n3: "no_match coarse_pymatgen (carbon_cell 2 None) (symprec_sub 1 3) 3"
    by (simp add: no_match_coarse)
  have n: "\<forall>i \<in> {1..8}. no_match blind_pymatgen (carbon_cell 2 None) (symprec_sub 1 i) 3"
    by (simp add: no_match_blind)
  from primitive_search_doubles_tolerance [of 1 example_pyxtal "carbon_cell 2 None" "Some 3" None
      "''t''" "0.001" 5 None "carbon_cell 2 None" 3
      "[FromSeed (carbon_cell 2 None) 0.001 5, Subgroup (Some 3) None 1 ''t'']" blind_pymatgen]
    derive_example [of "carbon_cell 2 None" 1 "''t''" "0.001" 5] n
  have b: "fst (get_subgroup_structure (Some example_pyxtal) blind_pymatgen (carbon_cell 2 None) (Some 3)
            None 1 ''t'' True 0.001 5 None)
       = Inl (RuntimeError ''Could not find a value of symprec that matches the original space group'')
     \<and> tolerances_tried (snd (get_subgroup_structure (Some example_pyxtal) blind_pymatgen
            (carbon_cell 2 None) (Some 3) None 1 ''t'' True 0.001 5 None))
       = [1 / 8, 1 / 4, 1 / 2, 1, 2, 4, 8, 16]"
    by simp
  from b c n3 o full_match_coarse [of "carbon_cell 2 None"]
    derive_example [of "carbon_cell 2 None" 1 "''t''" "0.001" 5]
  show ?thesis by (simp add: no_match_blind)
qed

text \<open>
  Claim C1 as stated says each tolerance tried is half the one before. In the run with
  \<open>eps = 1\<close> the tolerances tried are \<open>1/8, 1/4, 1/2, 1, 2, 4, 8, 16\<close>: the second is
  twice the first, not half of it.
\<close>

theorem primitive_search_not_halving:
  "tolerances_tried (snd (get_subgroup_structure (Some example_pyxtal) blind_pymatgen
            (carbon_cell 2 None) (Some 3) None 1 ''t'' True 0.001 5 None))
       = [1 / 8, 1 / 4, 1 / 2, 1, 2, 4, 8, 16]
   \<and> symprec_sub 1 2 = 2 * symprec_sub 1 1
   \<and> symprec_sub 1 2 \<noteq> symprec_sub 1 1 / 2"
proof -
  have n: "\<forall>i \<in> set [1..<9]. no_match blind_pymatgen (carbon_cell 2 None) (symprec_sub 1 i) 3"
    by (simp add: no_match_blind)
  obtain r tr where p: "primitive_scan blind_pymatgen 1 3 (carbon_cell 2 None) [1..<9] = (r, tr)"
    by (cases "primitive_scan blind_pymatgen 1 3 (carbon_cell 2 None) [1..<9]")
  with primitive_scan_no_match [OF n]
  have r: "r = Inl (RuntimeError ''Could not find a value of symprec that matches the original space group'')"
    and tr: "tolerances_tried tr = map (symprec_sub 1) [1..<9]"
    by simp_all
  have "get_subgroup_structure (Some example_pyxtal) blind_pymatgen
            (carbon_cell 2 None) (Some 3) None 1 ''t'' True 0.001 5 None
      = (Inl (RuntimeError ''Could not find a value of symprec that matches the original space group''),
         [FromSeed (carbon_cell 2 None) 0.001 5, Subgroup (Some 3) None 1 ''t''] @ tr)"
    by (simp add: get_subgroup_structure_def requires_def derive_example p [simplified] r)
  then have "tolerances_tried (snd (get_subgroup_structure (Some example_pyxtal) blind_pymatgen
            (carbon_cell 2 None) (Some 3) None 1 ''t'' True 0.001 5 None))
      = map (symprec_sub 1) [1..<9]"
    using tr by (simp add: tolerances_tried_def)
  then show ?thesis
    unfolding symprec_sub_values by (simp add: symprec_sub_def)
qed

section \<open>Properties of the subgroup validator\<close>

lemma is_sample_simps [simp]:
  "is_sample (AddAtom i)"
  "\<not> is_sample (NewAnalyzer s tol)"
  "\<not> is_sample (GetSpaceGroupNumber a)"
  "\<not> is_sample (Fit s1 s2)"
  by (simp_all add: is_sample_def)

lemma sample_pass_miss:
  assumes "sample_misses pmg add_atom structure_sub symm_ops symprec sub_spgn i"
  shows "\<exists>tr. sample_loop pmg add_atom structure_sub symm_ops sub_spgn symprec (i # rest)
      = (fst (sample_loop pmg add_atom structure_sub symm_ops sub_spgn symprec rest),
         AddAtom i # tr @ snd (sample_loop pmg add_atom structure_sub symm_ops sub_spgn symprec rest))
      \<and> filter is_sample tr = []"
  using assms
  by (auto simp add: sample_misses_def sample_detect_def add_new_symmetrized_atom_def
      SpacegroupAnalyzer_def get_space_group_number_def pure_r_def
      split: sum.splits option.splits)

lemma sample_pass_match:
  assumes "sample_matches pmg add_atom structure_sub symm_ops symprec sub_spgn i"
  shows "\<exists>tr. sample_loop pmg add_atom structure_sub symm_ops sub_spgn symprec (i # rest)
      = (Inr None, AddAtom i # tr) \<and> filter is_sample tr = []"
  using assms
  by (auto simp add: sample_matches_def sample_detect_def add_new_symmetrized_atom_def
      SpacegroupAnalyzer_def get_space_group_number_def pure_r_def
      split: sum.splits option.splits)

lemma sample_loop_all_miss:
  assumes "\<forall>i \<in> set passes. sample_misses pmg add_atom structure_sub symm_ops symprec sub_spgn i"
  shows "fst (sample_loop pmg add_atom structure_sub symm_ops sub_spgn symprec passes)
      = Inr (Some (''generated structures do not belong to the spacegroup '' @ str_int sub_spgn))
    \<and> filter is_sample (snd (sample_loop pmg add_atom structure_sub symm_ops sub_spgn symprec passes))
      = map AddAtom passes"
  using assms
proof (induction passes)
  case Nil
  show ?case by (simp add: pure_r_def)
next
  case (Cons i passes)
  then have "sample_misses pmg add_atom structure_sub symm_ops symprec sub_spgn i" by simp
  from sample_pass_miss [OF this, of passes] obtain tr where
    "sample_loop pmg add_atom structure_sub symm_ops sub_spgn symprec (i # passes)
      = (fst (sample_loop pmg add_atom structure_sub symm_ops sub_spgn symprec passes),
         AddAtom i # tr @ snd (sample_loop pmg add_atom structure_sub symm_ops sub_spgn symprec passes))"
    and "filter is_sample tr = []"
    by blast
  with Cons show ?case
    by (simp del: sample_loop.simps)
qed

lemma sample_loop_first_match:
  assumes "\<forall>i \<in> set before. sample_misses pmg add_atom structure_sub symm_ops symprec sub_spgn i"
    and "sample_matches pmg add_atom structure_sub symm_ops symprec sub_spgn k"
  shows "fst (sample_loop pmg add_atom structure_sub symm_ops sub_spgn symprec (before @ k # rest))
      = Inr None
    \<and> filter is_sample (snd (sample_loop pmg add_atom structure_sub symm_ops sub_spgn symprec (before @ k # rest)))
      = map AddAtom (before @ [k])"
  using assms
proof (induction before)
  case Nil
  from sample_pass_match [OF Nil(2), of rest] show ?case
    by (auto simp del: sample_loop.simps)
next
  case (Cons i before)
  then have "sample_misses pmg add_atom structure_sub symm_ops symprec sub_spgn i" by simp
  from sample_pass_miss [OF this, of "before @ k # rest"] obtain tr where
    "sample_loop pmg add_atom structure_sub symm_ops sub_spgn symprec (i # before @ k # rest)
      = (fst (sample_loop pmg add_atom structure_sub symm_ops sub_spgn symprec (before @ k # rest)),
         AddAtom i # tr @ snd (sample_loop pmg add_atom structure_sub symm_ops sub_spgn symprec (before @ k # rest)))"
    and "filter is_sample tr = []"
    by blast
  with Cons show ?case
    by (simp del: sample_loop.simps)
qed

text \<open>
  Claim C8: when the matcher finds the structures do not fit, the validator returns the
  mismatch reason, raises nothing and draws no sample (the trace holds the matcher call
  only). When they fit and sample \<open>k\<close>, below 10, is the first to match the target, it
  returns \<^verbatim>\<open>None\<close> after drawing exactly the samples 0 to \<open>k\<close>. When they fit and none of
  the 10 samples matches, it returns the failure reason naming the target after drawing
  all 10.
\<close>

theorem validate_subgroup_outcomes:
  "(matcher_fit pmg ltol stol angle_tol structure_orig structure_sub = Inr False \<longrightarrow>
      validate_subgroup pmg add_atom structure_orig structure_sub symm_ops sub_spgn ltol stol
          angle_tol symprec
        = (Inr (Some ''structures do not fit''), [Fit structure_orig structure_sub]))
   \<and> (matcher_fit pmg ltol stol angle_tol structure_orig structure_sub = Inr True
        \<and> k < 10
        \<and> (\<forall>i<k. sample_misses pmg add_atom structure_sub symm_ops symprec sub_spgn i)
        \<and> sample_matches pmg add_atom structure_sub symm_ops symprec sub_spgn k \<longrightarrow>
      fst (validate_subgroup pmg add_atom structure_orig structure_sub symm_ops sub_spgn ltol stol
          angle_tol symprec) = Inr None
      \<and> filter is_sample (snd (validate_subgroup pmg add_atom structure_orig structure_sub
          symm_ops sub_spgn ltol stol angle_tol symprec)) = map AddAtom [0..<Suc k])
   \<and> (matcher_fit pmg ltol stol angle_tol structure_orig structure_sub = Inr True
        \<and> (\<forall>i<10. sample_misses pmg add_atom structure_sub symm_ops symprec sub_spgn i) \<longrightarrow>
      fst (validate_subgroup pmg add_atom structure_orig structure_sub symm_ops sub_spgn ltol stol
          angle_tol symprec)
        = Inr (Some (''generated structures do not belong to the spacegroup '' @ str_int sub_spgn))
      \<and> filter is_sample (snd (validate_subgroup pmg add_atom structure_orig structure_sub
          symm_ops sub_spgn ltol stol angle_tol symprec)) = map AddAtom [0..<10])"
proof (intro conjI impI)
  assume "matcher_fit pmg ltol stol angle_tol structure_orig structure_sub = Inr False"
  then show "validate_subgroup pmg add_atom structure_orig structure_sub symm_ops sub_spgn ltol stol
          angle_tol symprec
        = (Inr (Some ''structures do not fit''), [Fit structure_orig structure_sub])"
    by (simp add: validate_subgroup_def pure_r_def)
next
  assume a: "matcher_fit pmg ltol stol angle_tol structure_orig structure_sub = Inr True
        \<and> k < 10
        \<and> (\<forall>i<k. sample_misses pmg add_atom structure_sub symm_ops symprec sub_spgn i)
        \<and> sample_matches pmg add_atom structure_sub symm_ops symprec sub_spgn k"
  then have f: "matcher_fit pmg ltol stol angle_tol structure_orig structure_sub = Inr True"
    and s: "[0..<10] = [0..<k] @ k # [Suc k..<10]"
    and m: "\<forall>i \<in> set [0..<k]. sample_misses pmg add_atom structure_sub symm_ops symprec sub_spgn i"
    and h: "sample_matches pmg add_atom structure_sub symm_ops symprec sub_spgn k"
    by (simp_all add: upt_split)
  from sample_loop_first_match [OF m h, of "[Suc k..<10]"]
  have "fst (sample_loop pmg add_atom structure_sub symm_ops sub_spgn symprec [0..<10]) = Inr None"
    and "filter is_sample (snd (sample_loop pmg add_atom structure_sub symm_ops sub_spgn symprec [0..<10]))
      = map AddAtom [0..<Suc k]"
    unfolding s by simp_all
  with f show "fst (validate_subgroup pmg add_atom structure_orig structure_sub symm_ops sub_spgn ltol stol
          angle_tol symprec) = Inr None"
    and "filter is_sample (snd (validate_subgroup pmg add_atom structure_orig structure_sub
          symm_ops sub_spgn ltol stol angle_tol symprec)) = map AddAtom [0..<Suc k]"
    by (simp_all add: validate_subgroup_def)
next
  assume a: "matcher_fit pmg ltol stol angle_tol structure_orig structure_sub = Inr True
        \<and> (\<forall>i<10. sample_misses pmg add_atom structure_sub symm_ops symprec sub_spgn i)"
  then have f: "matcher_fit pmg ltol stol angle_tol structure_orig structure_sub = Inr True"
    and m: "\<forall>i \<in> set [0..<10]. sample_misses pmg add_atom structure_sub symm_ops symprec sub_spgn i"
    by simp_all
  from sample_loop_all_miss [OF m] f
  show "fst (validate_subgroup pmg add_atom structure_orig structure_sub symm_ops sub_spgn ltol stol
          angle_tol symprec)
        = Inr (Some (''generated structures do not belong to the spacegroup '' @ str_int sub_spgn))"
    and "filter is_sample (snd (validate_subgroup pmg add_atom structure_orig structure_sub
          symm_ops sub_spgn ltol stol angle_tol symprec)) = map AddAtom [0..<10]"
    by (simp_all add: validate_subgroup_def)
qed

lemma sample_detect_example:
  "sample_detect counting_pymatgen example_adder (carbon_cell 2 None) [] symprec i
     = Some (Some (if i < 3 then 1 else 3))"
  by (simp add: sample_detect_def example_adder_def counting_pymatgen_def)

text \<open>
  The three outcomes on concrete calls: structures of different sizes; a first match at
  sample 3; a target no sample ever matches.
\<close>

theorem validate_subgroup_outcomes_witness:
  "matcher_fit counting_pymatgen 0.001 0.001 1 (carbon_cell 2 None) (carbon_cell 3 None) = Inr False
   \<and> validate_subgroup counting_pymatgen example_adder (carbon_cell 2 None) (carbon_cell 3 None) []
        3 0.001 0.001 1 0.001
       = (Inr (Some ''structures do not fit''), [Fit (carbon_cell 2 None) (carbon_cell 3 None)])
   \<and> matcher_fit counting_pymatgen 0.001 0.001 1 (carbon_cell 2 None) (carbon_cell 2 None) = Inr True
   \<and> sample_misses counting_pymatgen example_adder (carbon_cell 2 None) [] 0.001 3 2
   \<and> sample_matches counting_pymatgen example_adder (carbon_cell 2 None) [] 0.001 3 3
   \<and> fst (validate_subgroup counting_pymatgen example_adder (carbon_cell 2 None) (carbon_cell 2 None)
        [] 3 0.001 0.001 1 0.001) = Inr None
   \<and> filter is_sample (snd (validate_subgroup counting_pymatgen example_adder (carbon_cell 2 None)
        (carbon_cell 2 None) [] 3 0.001 0.001 1 0.001)) = map AddAtom [0..<4]
   \<and> sample_misses counting_pymatgen example_adder (carbon_cell 2 None) [] 0.001 7 9
   \<and> fst (validate_subgroup counting_pymatgen example_adder (carbon_cell 2 None) (carbon_cell 2 None)
        [] 7 0.001 0.001 1 0.001)
       = Inr (Some (''generated structures do not belong to the spacegroup '' @ str_int 7))
   \<and> filter is_sample (snd (validate_subgroup counting_pymatgen example_adder (carbon_cell 2 None)
        (carbon_cell 2 None) [] 7 0.001 0.001 1 0.001)) = map AddAtom [0..<10]"
proof -
  have f1: "matcher_fit counting_pymatgen 0.001 0.001 1 (carbon_cell 2 None) (carbon_cell 3 None) = Inr False"
    and f2: "matcher_fit counting_pymatgen 0.001 0.001 1 (carbon_cell 2 None) (carbon_cell 2 None) = Inr True"
    by (simp_all add: counting_pymatgen_def)
  have m3: "\<forall>i<3. sample_misses counting_pymatgen example_adder (carbon_cell 2 None) [] 0.001 3 i"
    and h3: "sample_matches counting_pymatgen example_adder (carbon_cell 2 None) [] 0.001 3 3"
    and m7: "\<forall>i<10. sample_misses counting_pymatgen example_adder (carbon_cell 2 None) [] 0.001 7 i"
    by (simp_all add: sample_misses_def sample_matches_def sample_detect_example)
  note t = validate_subgroup_outcomes [where pmg = counting_pymatgen and add_atom = example_adder
      and ltol = "0.001" and stol = "0.001" and angle_tol = 1 and symprec = "0.001"
      and structure_orig = "carbon_cell 2 None" and symm_ops = "[]"]
  from t [where structure_sub = "carbon_cell 3 None" and sub_spgn = 3 and k = 3] f1
  have a: "validate_subgroup counting_pymatgen example_adder (carbon_cell 2 None) (carbon_cell 3 None) []
        3 0.001 0.001 1 0.001
       = (Inr (Some ''structures do not fit''), [Fit (carbon_cell 2 None) (carbon_cell 3 None)])"
    by blast
  from t [where structure_sub = "carbon_cell 2 None" and sub_spgn = 3 and k = 3] f2 m3 h3
  have b: "fst (validate_subgroup counting_pymatgen example_adder (carbon_cell 2 None) (carbon_cell 2 None)
        [] 3 0.001 0.001 1 0.001) = Inr None"
    and c: "filter is_sample (snd (validate_subgroup counting_pymatgen example_adder (carbon_cell 2 None)
        (carbon_cell 2 None) [] 3 0.001 0.001 1 0.001)) = map AddAtom [0..<Suc 3]"
    by simp_all
  from t [where structure_sub = "carbon_cell 2 None" and sub_spgn = 7 and k = 3] f2 m7
  have d: "fst (validate_subgroup counting_pymatgen example_adder (carbon_cell 2 None) (carbon_cell 2 None)
        [] 7 0.001 0.001 1 0.001)
       = Inr (Some (''generated structures do not belong to the spacegroup '' @ str_int 7))"
    and e: "filter is_sample (snd (validate_subgroup counting_pymatgen example_adder (carbon_cell 2 None)
        (carbon_cell 2 None) [] 7 0.001 0.001 1 0.001)) = map AddAtom [0..<10]"
    by simp_all
  have s4: "[0..<4] = [0..<Suc 3]" by simp
  from m3 have m32: "sample_misses counting_pymatgen example_adder (carbon_cell 2 None) [] 0.001 3 2"
    by simp
  from m7 have m79: "sample_misses counting_pymatgen example_adder (carbon_cell 2 None) [] 0.001 7 9"
    by simp
  show ?thesis
    unfolding s4 using f1 a f2 m32 h3 b c m79 d e by blast
qed

section \<open>Properties of the subgroup enumerator\<close>

lemma set_new_keys: "set (new_keys seen xs) = set xs - set seen"
  by (induction xs arbitrary: seen) auto

lemma distinct_new_keys: "distinct (new_keys seen xs)"
  by (induction xs arbitrary: seen) (auto simp add: set_new_keys)

lemma expand_loop_all_succeed:
  assumes "\<forall>sg \<in> set xs. fst (expand sg) = Inr (sub sg)"
  shows "expand_loop expand xs d
     = (Inr (d @ map (\<lambda>sg. (sg, sub sg)) (new_keys (map fst d) xs)),
        concat (map (\<lambda>sg. snd (expand sg)) (new_keys (map fst d) xs)))"
  using assms
proof (induction xs arbitrary: d)
  case Nil
  show ?case by (simp add: pure_r_def)
next
  case (Cons sg xs)
  show ?case
  proof (cases "sg \<in> fst ` set d")
    case True
    with Cons show ?thesis by simp
  next
    case False
    obtain r tr where rt: "expand sg = (r, tr)" by (cases "expand sg")
    with Cons.prems have e: "expand sg = (Inr (sub sg), tr)" by auto
    have step: "expand_loop expand (sg # xs) d
        = (fst (expand_loop expand xs (d @ [(sg, sub sg)])),
           tr @ snd (expand_loop expand xs (d @ [(sg, sub sg)])))"
      using False by (simp add: e)
    from Cons.prems have "\<forall>sg \<in> set xs. fst (expand sg) = Inr (sub sg)" by simp
    note ih = Cons.IH [OF this, of "d @ [(sg, sub sg)]"]
    from False have k: "new_keys (map fst d) (sg # xs) = sg # new_keys (map fst d @ [sg]) xs"
      by simp
    show ?thesis
      unfolding step ih k by (simp add: e)
  qed
qed

lemma fst_bind_r_Inl: "fst m = Inl e \<Longrightarrow> fst (bind_r m f) = Inl e"
  by (cases m) (simp add: bind_r_def)

lemma get_subgroups_recursive_ok:
  assumes gt: "group_type = ''t'' \<or> group_type = ''k''"
    and G: "symmetry_Group px g = Inr G"
    and subs: "\<forall>sg \<in> set (listed px group_type g).
        fst (get_subgroups d (Some px) sg True group_type) = Inr (sub sg)"
  shows "get_subgroups (Suc d) (Some px) g True group_type
     = (Inr (SubDict (map (\<lambda>sg. (sg, sub sg)) (new_keys [] (listed px group_type g)))),
        NewGroup g # concat (map (\<lambda>sg. snd (get_subgroups d (Some px) sg True group_type))
                               (new_keys [] (listed px group_type g))))"
proof -
  from gt G have l: "(if group_type = ''t'' then pure_r (max_t_subgroup G)
       else if group_type = ''k'' then pure_r (max_k_subgroup G)
       else raise_r e) = pure_r (listed px group_type g)" for e :: exn
    by (auto simp add: listed_def)
  from expand_loop_all_succeed [OF subs, of "[]"]
  have "expand_loop (\<lambda>sg. get_subgroups d (Some px) sg True group_type) (listed px group_type g) []
     = (Inr (map (\<lambda>sg. (sg, sub sg)) (new_keys [] (listed px group_type g))),
        concat (map (\<lambda>sg. snd (get_subgroups d (Some px) sg True group_type))
                  (new_keys [] (listed px group_type g))))"
    by simp
  then show ?thesis
    by (simp add: requires_def G l pure_r_def)
qed

lemma get_subgroups_tree:
  assumes gt: "group_type = ''t'' \<or> group_type = ''k''"
    and closed: "\<forall>g \<in> S. (\<exists>G. symmetry_Group px g = Inr G)
        \<and> (\<forall>s \<in> set (listed px group_type g). s \<in> S \<and> rank s < (rank g :: nat))"
  shows "g \<in> S \<Longrightarrow> rank g < d \<Longrightarrow>
     fst (get_subgroups d (Some px) g True group_type)
       = Inr (SubDict (map (\<lambda>sg. (sg, projr (fst (get_subgroups (Suc (rank sg)) (Some px) sg True group_type))))
                (new_keys [] (listed px group_type g))))"
proof (induction "rank g" arbitrary: g d rule: less_induct)
  case less
  from less.prems obtain d' where d: "d = Suc d'" and d': "rank g \<le> d'"
    by (cases d) auto
  from closed less.prems obtain G where G: "symmetry_Group px g = Inr G" by blast
  have "\<forall>sg \<in> set (listed px group_type g).
      fst (get_subgroups d' (Some px) sg True group_type)
        = Inr (projr (fst (get_subgroups (Suc (rank sg)) (Some px) sg True group_type)))"
  proof
    fix sg assume sg: "sg \<in> set (listed px group_type g)"
    with closed less.prems have s: "sg \<in> S" and r: "rank sg < rank g" by auto
    from less.hyps [OF r s, of d'] r d'
    have a: "fst (get_subgroups d' (Some px) sg True group_type)
       = Inr (SubDict (map (\<lambda>sg. (sg, projr (fst (get_subgroups (Suc (rank sg)) (Some px) sg True group_type))))
                (new_keys [] (listed px group_type sg))))"
      by simp
    from less.hyps [OF r s, of "Suc (rank sg)"]
    have b: "fst (get_subgroups (Suc (rank sg)) (Some px) sg True group_type)
       = Inr (SubDict (map (\<lambda>sg. (sg, projr (fst (get_subgroups (Suc (rank sg)) (Some px) sg True group_type))))
                (new_keys [] (listed px group_type sg))))"
      by simp
    show "fst (get_subgroups d' (Some px) sg True group_type)
        = Inr (projr (fst (get_subgroups (Suc (rank sg)) (Some px) sg True group_type)))"
      unfolding a b by simp
  qed
  from get_subgroups_recursive_ok [OF gt G this] show ?case
    unfolding d by simp
qed

lemma get_subgroups_flat:
  assumes "group_type = ''t'' \<or> group_type = ''k''" and "symmetry_Group px g = Inr G"
  shows "get_subgroups (Suc d) (Some px) g False group_type
     = (Inr (SubList (listed px group_type g)), [NewGroup g])"
  using assms by (auto simp add: requires_def listed_def pure_r_def)

lemma get_subgroups_bad_type:
  assumes "group_type \<noteq> ''t''" and "group_type \<noteq> ''k''"
  shows "\<exists>e. fst (get_subgroups d pyxtal g recursive group_type) = Inl e"
proof (cases d)
  case 0
  then show ?thesis by (simp add: raise_r_def)
next
  case (Suc d')
  show ?thesis
  proof (cases pyxtal)
    case None
    with Suc show ?thesis by (simp add: requires_def raise_r_def)
  next
    case (Some px)
    with Suc assms show ?thesis
      by (cases "symmetry_Group px g") (simp_all add: requires_def raise_r_def)
  qed
qed

lemma get_subgroups_bad_type_ValueError:
  assumes "group_type \<noteq> ''t''" and "group_type \<noteq> ''k''" and "symmetry_Group px g = Inr G"
  shows "get_subgroups (Suc d) (Some px) g recursive group_type = (Inl bad_group_type, [NewGroup g])"
  using assms by (simp add: requires_def raise_r_def bad_group_type_def)

text \<open>
  On a table that is well founded below \<open>spgn\<close> the recursion does return. Let the relation
  type be t or k, and on a set \<open>S\<close> of group numbers holding \<open>spgn\<close> let every group be
  known to pyxtal and each subgroup it lists be in \<open>S\<close> with a strictly smaller rank. Then
  the recursive call returns, at every depth allowance above the rank of \<open>spgn\<close>, one and
  the same dictionary; its keys are the unique elements of the flat list the non-recursive
  call returns, in order of first occurrence; each key is mapped to what the recursive call
  returns for it; and the run expands each unique element once, in that order. A relation
  type outside \<open>{t, k}\<close> always ends in an error, the ValueError of line 152 when the
  group itself is known.
\<close>

lemma get_subgroups_on_well_founded_table:
  "((group_type = ''t'' \<or> group_type = ''k'') \<and> spgn \<in> S
     \<and> (\<forall>g \<in> S. (\<exists>G. symmetry_Group px g = Inr G)
           \<and> (\<forall>s \<in> set (listed px group_type g). s \<in> S \<and> rank s < (rank g :: nat)))
     \<longrightarrow>
       (\<exists>dict.
          (\<forall>d>rank spgn. fst (get_subgroups d (Some px) spgn True group_type) = Inr (SubDict dict))
          \<and> fst (get_subgroups 1 (Some px) spgn False group_type)
              = Inr (SubList (listed px group_type spgn))
          \<and> map fst dict = new_keys [] (listed px group_type spgn)
          \<and> distinct (map fst dict)
          \<and> set (map fst dict) = set (listed px group_type spgn)
          \<and> (\<forall>(sg, sub) \<in> set dict.
                \<forall>d>rank sg. fst (get_subgroups d (Some px) sg True group_type) = Inr sub)
          \<and> (\<forall>d\<ge>rank spgn. snd (get_subgroups (Suc d) (Some px) spgn True group_type)
                = NewGroup spgn
                  # concat (map (\<lambda>sg. snd (get_subgroups d (Some px) sg True group_type))
                              (new_keys [] (listed px group_type spgn))))))
   \<and> (group_type \<noteq> ''t'' \<and> group_type \<noteq> ''k'' \<longrightarrow>
        (\<exists>e. fst (get_subgroups d pyxtal spgn recursive group_type) = Inl e)
        \<and> (symmetry_Group px spgn = Inr G' \<longrightarrow>
             get_subgroups (Suc d) (Some px) spgn recursive group_type
               = (Inl bad_group_type, [NewGroup spgn])))"
proof (intro conjI impI)
  assume a: "(group_type = ''t'' \<or> group_type = ''k'') \<and> spgn \<in> S
     \<and> (\<forall>g \<in> S. (\<exists>G. symmetry_Group px g = Inr G)
           \<and> (\<forall>s \<in> set (listed px group_type g). s \<in> S \<and> rank s < rank g))"
  then have gt: "group_type = ''t'' \<or> group_type = ''k''" and s: "spgn \<in> S"
    and closed: "\<forall>g \<in> S. (\<exists>G. symmetry_Group px g = Inr G)
           \<and> (\<forall>s \<in> set (listed px group_type g). s \<in> S \<and> rank s < rank g)"
    by blast+
  note tree = get_subgroups_tree [OF gt closed]
  let ?sub = "\<lambda>sg. projr (fst (get_subgroups (Suc (rank sg)) (Some px) sg True group_type))"
  let ?dict = "map (\<lambda>sg. (sg, ?sub sg)) (new_keys [] (listed px group_type spgn))"
  from closed s obtain G where G: "symmetry_Group px spgn = Inr G" by blast
  have subs: "fst (get_subgroups d (Some px) sg True group_type) = Inr (?sub sg)"
    if "sg \<in> set (listed px group_type spgn)" and "rank sg < d" for sg d
  proof -
    from that closed s have m: "sg \<in> S" by blast
    from tree [OF m that(2)] tree [OF m, of "Suc (rank sg)"] show ?thesis by simp
  qed
  have 1: "\<forall>d>rank spgn. fst (get_subgroups d (Some px) spgn True group_type) = Inr (SubDict ?dict)"
    using tree [OF s] by blast
  have 2: "fst (get_subgroups 1 (Some px) spgn False group_type)
              = Inr (SubList (listed px group_type spgn))"
    using get_subgroups_flat [OF gt G, of 0] by simp
  have 3: "map fst ?dict = new_keys [] (listed px group_type spgn)"
    by (simp add: comp_def)
  have 4: "distinct (map fst ?dict)"
    unfolding 3 by (rule distinct_new_keys)
  have 5: "set (map fst ?dict) = set (listed px group_type spgn)"
    unfolding 3 by (simp add: set_new_keys)
  have 6: "\<forall>(sg, sub) \<in> set ?dict.
      \<forall>d>rank sg. fst (get_subgroups d (Some px) sg True group_type) = Inr sub"
    using subs by (auto simp add: set_new_keys)
  have 7: "\<forall>d\<ge>rank spgn. snd (get_subgroups (Suc d) (Some px) spgn True group_type)
                = NewGroup spgn
                  # concat (map (\<lambda>sg. snd (get_subgroups d (Some px) sg True group_type))
                              (new_keys [] (listed px group_type spgn)))"
  proof (intro allI impI)
    fix d assume d: "rank spgn \<le> d"
    have "\<forall>sg \<in> set (listed px group_type spgn).
        fst (get_subgroups d (Some px) sg True group_type) = Inr (?sub sg)"
    proof
      fix sg assume m: "sg \<in> set (listed px group_type spgn)"
      with closed s have "rank sg < rank spgn" by blast
      with d have "rank sg < d" by simp
      from subs [OF m this]
      show "fst (get_subgroups d (Some px) sg True group_type) = Inr (?sub sg)" .
    qed
    from get_subgroups_recursive_ok [OF gt G this]
    show "snd (get_subgroups (Suc d) (Some px) spgn True group_type)
                = NewGroup spgn
                  # concat (map (\<lambda>sg. snd (get_subgroups d (Some px) sg True group_type))
                              (new_keys [] (listed px group_type spgn)))"
      by simp
  qed
  from 1 2 3 4 5 6 7
  show "\<exists>dict.
          (\<forall>d>rank spgn. fst (get_subgroups d (Some px) spgn True group_type) = Inr (SubDict dict))
          \<and> fst (get_subgroups 1 (Some px) spgn False group_type)
              = Inr (SubList (listed px group_type spgn))
          \<and> map fst dict = new_keys [] (listed px group_type spgn)
          \<and> distinct (map fst dict)
          \<and> set (map fst dict) = set (listed px group_type spgn)
          \<and> (\<forall>(sg, sub) \<in> set dict.
                \<forall>d>rank sg. fst (get_subgroups d (Some px) sg True group_type) = Inr sub)
          \<and> (\<forall>d\<ge>rank spgn. snd (get_subgroups (Suc d) (Some px) spgn True group_type)
                = NewGroup spgn
                  # concat (map (\<lambda>sg. snd (get_subgroups d (Some px) sg True group_type))
                              (new_keys [] (listed px group_type spgn))))"
    by (intro exI [of _ ?dict] conjI)
next
  assume "group_type \<noteq> ''t'' \<and> group_type \<noteq> ''k''"
  then show "\<exists>e. fst (get_subgroups d pyxtal spgn recursive group_type) = Inl e"
    using get_subgroups_bad_type by blast
next
  assume "group_type \<noteq> ''t'' \<and> group_type \<noteq> ''k''" and "symmetry_Group px spgn = Inr G'"
  then show "get_subgroups (Suc d) (Some px) spgn recursive group_type
               = (Inl bad_group_type, [NewGroup spgn])"
    using get_subgroups_bad_type_ValueError by blast
qed

lemma listed_example:
  "listed example_pyxtal ''t'' g = (if g = 16 then [3, 3, 3] else if g = 3 then [1] else [])"
  by (simp add: listed_def example_pyxtal_def example_group_def)

lemma get_subgroups_example:
  "get_subgroups 3 (Some example_pyxtal) 16 True ''t''
     = (Inr (SubDict [(3, SubDict [(1, SubDict [])])]), [NewGroup 16, NewGroup 3, NewGroup 1])"
  by (simp add: numeral_3_eq_3 requires_def example_pyxtal_def example_group_def pure_r_def)

text \<open>
  The example table of t-subgroups below P222: the three listings of P2 are expanded once.
\<close>

lemma get_subgroups_example_tree:
  "listed example_pyxtal ''t'' 16 = [3, 3, 3]
   \<and> listed example_pyxtal ''t'' 3 = [1]
   \<and> listed example_pyxtal ''t'' 1 = []
   \<and> example_rank 3 < example_rank 16 \<and> example_rank 1 < example_rank 3
   \<and> (\<exists>dict. fst (get_subgroups 3 (Some example_pyxtal) 16 True ''t'') = Inr (SubDict dict)
         \<and> map fst dict = [3])
   \<and> get_subgroups 3 (Some example_pyxtal) 16 True ''t''
       = (Inr (SubDict [(3, SubDict [(1, SubDict [])])]), [NewGroup 16, NewGroup 3, NewGroup 1])
   \<and> fst (get_subgroups 1 (Some example_pyxtal) 16 False ''t'') = Inr (SubList [3, 3, 3])
   \<and> get_subgroups 1 (Some example_pyxtal) 16 True ''x'' = (Inl bad_group_type, [NewGroup 16])"
proof -
  have c: "\<forall>g \<in> {1, 3, 16}. (\<exists>G. symmetry_Group example_pyxtal g = Inr G)
      \<and> (\<forall>s \<in> set (listed example_pyxtal ''t'' g). s \<in> {1, 3, 16} \<and> example_rank s < example_rank g)"
    by (simp add: listed_example example_rank_def) (simp add: example_pyxtal_def)
  have G: "symmetry_Group example_pyxtal 16 = Inr (example_group 16)"
    by (simp add: example_pyxtal_def)
  note t = get_subgroups_on_well_founded_table [where px = example_pyxtal and spgn = 16
      and rank = example_rank and S = "{1, 3, 16}" and G' = "example_group 16" and d = 0]
  from t [where group_type = "''t''"] c
  obtain dict where d: "\<forall>d>example_rank 16. fst (get_subgroups d (Some example_pyxtal) 16 True ''t'') = Inr (SubDict dict)"
    and f: "fst (get_subgroups 1 (Some example_pyxtal) 16 False ''t'') = Inr (SubList (listed example_pyxtal ''t'' 16))"
    and k: "map fst dict = new_keys [] (listed example_pyxtal ''t'' 16)"
    by auto
  from d have d3: "fst (get_subgroups 3 (Some example_pyxtal) 16 True ''t'') = Inr (SubDict dict)"
    by (simp add: example_rank_def)
  from k have k3: "map fst dict = [3]"
    by (simp add: listed_example)
  from t [where group_type = "''x''" and recursive = True] G
  have x: "get_subgroups 1 (Some example_pyxtal) 16 True ''x'' = (Inl bad_group_type, [NewGroup 16])"
    by simp
  from d3 k3 f x show ?thesis
    by (simp add: listed_example example_rank_def get_subgroups_example)
qed

lemma expand_loop_fails:
  assumes "x \<in> set xs" and "x \<notin> fst ` set d" and "fst (expand x) = Inl e"
  shows "\<exists>e'. fst (expand_loop expand xs d) = Inl e'"
  using assms
proof (induction xs arbitrary: d)
  case Nil
  then show ?case by simp
next
  case (Cons y ys)
  show ?case
  proof (cases "y \<in> fst ` set d")
    case True
    with Cons.prems have "x \<in> set ys" by auto
    from Cons.IH [OF this Cons.prems(2,3)] True show ?thesis by simp
  next
    case False
    show ?thesis
    proof (cases "expand y")
      case (Pair r tr)
      show ?thesis
      proof (cases r)
        case (Inl e'')
        with Pair False show ?thesis by simp
      next
        case (Inr sub)
        with Pair Cons.prems have "x \<noteq> y" by auto
        with Cons.prems have m: "x \<in> set ys" and n: "x \<notin> fst ` set (d @ [(y, sub)])"
          by auto
        from Cons.IH [OF m n Cons.prems(3)] Pair Inr False show ?thesis by simp
      qed
    qed
  qed
qed

lemma expand_loop_error_from_expand:
  assumes "fst (expand_loop expand xs d) = Inl e"
  shows "\<exists>x \<in> set xs. fst (expand x) = Inl e"
  using assms
proof (induction xs arbitrary: d)
  case Nil
  then show ?case by (simp add: pure_r_def)
next
  case (Cons y ys)
  show ?case
  proof (cases "y \<in> fst ` set d")
    case True
    with Cons show ?thesis by auto
  next
    case False
    show ?thesis
    proof (cases "expand y")
      case (Pair r tr)
      show ?thesis
      proof (cases r)
        case (Inl e'')
        with Pair False Cons.prems show ?thesis by simp
      next
        case (Inr sub)
        with Pair False Cons.prems
        have "fst (expand_loop expand ys (d @ [(y, sub)])) = Inl e" by simp
        from Cons.IH [OF this] show ?thesis by auto
      qed
    qed
  qed
qed

lemma get_subgroups_self_listed:
  assumes "g \<in> set (listed px group_type g)"
  shows "\<exists>e. fst (get_subgroups d (Some px) g True group_type) = Inl e"
proof (induction d)
  case 0
  show ?case by (simp add: raise_r_def)
next
  case (Suc d)
  from assms obtain G where G: "symmetry_Group px g = Inr G"
    by (cases "symmetry_Group px g") (simp_all add: listed_def)
  from assms G have l: "(if group_type = ''t'' then pure_r (max_t_subgroup G)
       else if group_type = ''k'' then pure_r (max_k_subgroup G)
       else raise_r e) = pure_r (listed px group_type g)" for e :: exn
    by (auto simp add: listed_def split: if_splits)
  from Suc obtain e where f: "fst (get_subgroups d (Some px) g True group_type) = Inl e" ..
  have n: "g \<notin> fst ` set ([] :: (int \<times> subgroups) list)" by simp
  from expand_loop_fails [where expand = "\<lambda>sg. get_subgroups d (Some px) sg True group_type",
      OF assms n f]
  obtain e' where "fst (expand_loop (\<lambda>sg. get_subgroups d (Some px) sg True group_type)
      (listed px group_type g) []) = Inl e'"
    by auto
  then show ?case
    by (simp add: requires_def G l fst_bind_r_Inl)
qed

lemma get_subgroups_only_recursion_error:
  assumes known: "\<forall>g. \<exists>G. symmetry_Group px g = Inr G"
    and gt: "group_type = ''t'' \<or> group_type = ''k''"
  shows "fst (get_subgroups d (Some px) g True group_type) = Inl e \<Longrightarrow> e = RecursionError"
proof (induction d arbitrary: g e)
  case 0
  then show ?case by (simp add: raise_r_def)
next
  case (Suc d)
  from known obtain G where G: "symmetry_Group px g = Inr G" by blast
  from gt G have l: "(if group_type = ''t'' then pure_r (max_t_subgroup G)
       else if group_type = ''k'' then pure_r (max_k_subgroup G)
       else raise_r e') = pure_r (listed px group_type g)" for e' :: exn
    by (auto simp add: listed_def)
  obtain r tr where x: "expand_loop (\<lambda>sg. get_subgroups d (Some px) sg True group_type)
      (listed px group_type g) [] = (r, tr)"
    by (cases "expand_loop (\<lambda>sg. get_subgroups d (Some px) sg True group_type)
      (listed px group_type g) []")
  with Suc.prems have "r = Inl e"
    by (cases r) (simp_all add: requires_def G l pure_r_def)
  with x have "fst (expand_loop (\<lambda>sg. get_subgroups d (Some px) sg True group_type)
      (listed px group_type g) []) = Inl e"
    by simp
  from expand_loop_error_from_expand [OF this]
  obtain sg where "fst (get_subgroups d (Some px) sg True group_type) = Inl e" by blast
  then show ?case by (rule Suc.IH)
qed

text \<open>
  Claim C9 (the recursive call terminates and returns a mapping for every group and both
  relation types) fails on the code wherever the table lists a group among its own
  maximal subgroups, as a table of klassengleiche subgroups does with the isomorphic
  ones: the function has no guard of its own, the membership test of line 158 only skips
  repeated siblings. For such a group the recursive call returns no dictionary at any
  depth allowance; and when every group is known to pyxtal, what ends the run is the
  RecursionError of the interpreter.
\<close>

theorem get_subgroups_self_listed_never_returns:
  "spgn \<in> set (listed px group_type spgn) \<longrightarrow>
     (\<exists>e. fst (get_subgroups d (Some px) spgn True group_type) = Inl e)
     \<and> ((\<forall>g. \<exists>G. symmetry_Group px g = Inr G) \<longrightarrow>
          fst (get_subgroups d (Some px) spgn True group_type) = Inl RecursionError)"
proof (intro impI conjI)
  assume a: "spgn \<in> set (listed px group_type spgn)"
  then show b: "\<exists>e. fst (get_subgroups d (Some px) spgn True group_type) = Inl e"
    by (rule get_subgroups_self_listed)
  assume k: "\<forall>g. \<exists>G. symmetry_Group px g = Inr G"
  from a have gt: "group_type = ''t'' \<or> group_type = ''k''"
    by (auto simp add: listed_def split: sum.splits if_splits)
  from b obtain e where e: "fst (get_subgroups d (Some px) spgn True group_type) = Inl e" ..
  from get_subgroups_only_recursion_error [OF k gt e] e
  show "fst (get_subgroups d (Some px) spgn True group_type) = Inl RecursionError"
    by simp
qed

text \<open>
  P1 in the example table of k-subgroups, at Python's default recursion limit.
\<close>

theorem get_subgroups_self_listed_never_returns_witness:
  "symmetry_Group example_pyxtal 1 = Inr (example_group 1)
   \<and> max_k_subgroup (example_group 1) = [1]
   \<and> 1 \<in> set (listed example_pyxtal ''k'' 1)
   \<and> fst (get_subgroups 1000 (Some example_pyxtal) 1 True ''k'') = Inl RecursionError"
proof -
  have a: "symmetry_Group example_pyxtal g = Inr (example_group g)" for g
    by (simp add: example_pyxtal_def)
  have b: "max_k_subgroup (example_group 1) = [1]"
    by (simp add: example_group_def)
  have c: "1 \<in> set (listed example_pyxtal ''k'' 1)"
    by (simp add: listed_def a b)
  from a have d: "\<forall>g. \<exists>G. symmetry_Group example_pyxtal g = Inr G" by blast
  from get_subgroups_self_listed_never_returns [of 1 example_pyxtal "''k''" 1000] c d
  have "fst (get_subgroups 1000 (Some example_pyxtal) 1 True ''k'') = Inl RecursionError"
    by blast
  with a [of 1] b c show ?thesis by simp
qed

end
